theory Spec2Isabelle
  imports Complex_Main "HOL-Library.Word" "HOL-Library.AList"
begin

section \<open>ERC-8004 agent registration script (register.ts)\<close>

text \<open>
  The script is one asynchronous function, \<^verbatim>\<open>main\<close>, followed by
  \<^verbatim>\<open>main().catch(console.error)\<close>. Everything it does outside its own control flow is
  done by the platform (the environment variables, the file system, \<^verbatim>\<open>JSON\<close>,
  \<^verbatim>\<open>Buffer\<close>, \<^verbatim>\<open>parseInt\<close>) or by the chain client library (signing, sending, waiting,
  decoding a log). The embedding keeps the control flow of \<^verbatim>\<open>main\<close> as it is written and
  takes the answers of the outside world from a record \<open>env\<close>: a call that can throw
  returns \<open>error + 'a\<close>, and \<open>Inl\<close> is the exception. Console output is not part of the
  model, except for the error that the last line of the script hands to
  \<^verbatim>\<open>console.error\<close>.
\<close>

subsection \<open>Values\<close>

text \<open>
  A JavaScript number, by its mathematical value. Negative zero is not told apart from
  zero.
\<close>

datatype number = NaN | PosInfinity | NegInfinity | Finite rat

text \<open>
  A value as \<^verbatim>\<open>JSON.parse\<close> builds it. The fields of an object are listed in property
  order, each key once.
\<close>

datatype json =
    JNull
  | JBool bool
  | JNumber number
  | JString string
  | JArray "json list"
  | JObject "(string \<times> json) list"

text \<open>What a call of the platform or of the client library can throw.\<close>

datatype error =
    Error string
  | ENOENT
  | SyntaxError
  | TypeError
  | InvalidPrivateKey
  | NetworkError
  | FundsError
  | NonceError
  | TransactionRejected
  | ConfirmationTimeout
  | AbiDecodingError
  | PersistenceError

subsection \<open>Contract configuration\<close>

definition CHAIN_ID :: nat where
  "CHAIN_ID = 84532"

definition IDENTITY_REGISTRY :: string where
  "IDENTITY_REGISTRY = ''0x8004AA63c570c570eBF15376c0dB199918BFe9Fb''"

definition REGISTERED_EVENT_SIG :: string where
  "REGISTERED_EVENT_SIG =
     ''0xca52e62c367d81bb2e328eb795f7c7ba24afb478408a26c0e201d155c449bc4a''"

subsection \<open>Strings\<close>

text \<open>
  Addresses and keys are hexadecimal text, so \<^verbatim>\<open>toLowerCase\<close> is modelled on ASCII
  letters; every other byte is kept.
\<close>

definition toLowerCase_char :: "char \<Rightarrow> char" where
  "toLowerCase_char c =
     (let n = of_char c :: nat in if 65 \<le> n \<and> n \<le> 90 then char_of (n + 32) else c)"

definition toLowerCase :: "string \<Rightarrow> string" where
  "toLowerCase s = map toLowerCase_char s"

definition startsWith :: "string \<Rightarrow> string \<Rightarrow> bool" where
  "startsWith s p = (take (length p) s = p)"

subsection \<open>Step 3: the token URI\<close>

text \<open>
  \<^verbatim>\<open>Buffer.from(registrationData).toString('base64')\<close>: the bytes of the text, three at
  a time, as four characters of the base64 alphabet, the last group padded with
  \<^verbatim>\<open>=\<close>. A \<open>string\<close> is the list of the bytes of the text in UTF-8, which is what
  \<^verbatim>\<open>Buffer.from\<close> makes of the text that \<^verbatim>\<open>readFile\<close> returned.
\<close>

definition base64_alphabet :: string where
  "base64_alphabet = ''ABCDEFGHIJKLMNOPQRSTUVWXYZabcdefghijklmnopqrstuvwxyz0123456789+/''"

definition sextet_char :: "nat \<Rightarrow> char" where
  "sextet_char i = base64_alphabet ! i"

fun base64 :: "string \<Rightarrow> string" where
  "base64 [] = []"
| "base64 [a] =
     (let x = of_char a :: nat
      in [sextet_char (x div 4), sextet_char (x mod 4 * 16), CHR ''='', CHR ''=''])"
| "base64 [a, b] =
     (let x = of_char a :: nat; y = of_char b :: nat
      in [sextet_char (x div 4), sextet_char (x mod 4 * 16 + y div 16),
          sextet_char (y mod 16 * 4), CHR ''=''])"
| "base64 (a # b # c # rest) =
     (let x = of_char a :: nat; y = of_char b :: nat; z = of_char c :: nat
      in [sextet_char (x div 4), sextet_char (x mod 4 * 16 + y div 16),
          sextet_char (y mod 16 * 4 + z div 64), sextet_char (z mod 64)] @ base64 rest)"

definition DATA_URI_PREFIX :: string where
  "DATA_URI_PREFIX = ''data:application/json;base64,''"

definition tokenURI :: "string \<Rightarrow> string" where
  "tokenURI registrationData = DATA_URI_PREFIX @ base64 registrationData"

text \<open>
  Modelled from the spec: the decoder of the token URI. The script only encodes; the spec
  says that decoding is the exact inverse of the encoder. The decoder below removes the
  declared prefix and reads the base64 text four characters at a time.
\<close>

primrec index_of :: "char \<Rightarrow> string \<Rightarrow> nat option" where
  "index_of c [] = None"
| "index_of c (x # xs) = (if c = x then Some 0 else map_option Suc (index_of c xs))"

definition char_sextet :: "char \<Rightarrow> nat option" where
  "char_sextet c = index_of c base64_alphabet"

fun unbase64 :: "string \<Rightarrow> string option" where
  "unbase64 [] = Some []"
| "unbase64 (p # q # r # s # rest) =
     (case (char_sextet p, char_sextet q) of
        (Some i, Some j) \<Rightarrow>
          if r = CHR ''='' \<and> s = CHR ''='' then
            (if rest = [] then Some [char_of (i * 4 + j div 16)] else None)
          else
            (case char_sextet r of
               None \<Rightarrow> None
             | Some k \<Rightarrow>
                 if s = CHR ''='' then
                   (if rest = []
                    then Some [char_of (i * 4 + j div 16), char_of (j mod 16 * 16 + k div 4)]
                    else None)
                 else
                   (case char_sextet s of
                      None \<Rightarrow> None
                    | Some l \<Rightarrow>
                        map_option
                          (\<lambda>bytes. char_of (i * 4 + j div 16) #
                             char_of (j mod 16 * 16 + k div 4) #
                             char_of (k mod 4 * 64 + l) # bytes)
                          (unbase64 rest)))
      | _ \<Rightarrow> None)"
| "unbase64 _ = None"

definition decodeTokenURI :: "string \<Rightarrow> string option" where
  "decodeTokenURI uri =
     (if startsWith uri DATA_URI_PREFIX then unbase64 (drop (length DATA_URI_PREFIX) uri)
      else None)"

subsection \<open>Step 6: the receipt and the Registered event\<close>

text \<open>
  A log of the receipt, the receipt (only its logs are read), and what
  \<^verbatim>\<open>decodeEventLog\<close> returns for the ABI of the script: the name of the event and its
  arguments. The identifier is a \<^verbatim>\<open>uint256\<close>. The decoder itself belongs to the client
  library; it gets the data and the topics of a log and returns the event or throws.
\<close>

record log =
  address :: string
  topics :: "string list"
  data :: string

record receipt =
  logs :: "log list"

record registered_args =
  agentId :: "256 word"
  agentURI :: string
  owner :: string

record decoded =
  eventName :: string
  args :: "registered_args option"

text \<open>\<^verbatim>\<open>log.topics[0]\<close>: undefined when the log has no topic.\<close>

definition topic0 :: "log \<Rightarrow> string option" where
  "topic0 l = (case topics l of [] \<Rightarrow> None | t # _ \<Rightarrow> Some t)"

text \<open>The predicate given to \<^verbatim>\<open>receipt.logs.find\<close>.\<close>

definition isRegisteredLog :: "log \<Rightarrow> bool" where
  "isRegisteredLog l =
     (toLowerCase (address l) = toLowerCase IDENTITY_REGISTRY \<and>
      topic0 l = Some REGISTERED_EVENT_SIG)"

definition registeredLog :: "receipt \<Rightarrow> log option" where
  "registeredLog r = find isRegisteredLog (logs r)"

text \<open>\<^verbatim>\<open>bigint.toString()\<close> of a non-negative value: its decimal digits.\<close>

definition digit_char :: "nat \<Rightarrow> char" where
  "digit_char d = char_of (48 + d)"

fun toString :: "nat \<Rightarrow> string" where
  "toString n = (if n < 10 then [digit_char n] else toString (n div 10) @ [digit_char (n mod 10)])"

declare toString.simps [simp del]

text \<open>
  The value of \<^verbatim>\<open>agentId\<close> after the decoding block: the decimal text of the
  identifier, or \<^verbatim>\<open>null\<close> (\<open>None\<close>) when no log matches, when \<^verbatim>\<open>decodeEventLog\<close>
  throws (the \<^verbatim>\<open>catch\<close> only warns), or when the decoded event is not a Registered
  event with arguments.
\<close>

definition decodeAgentId ::
  "(string \<Rightarrow> string list \<Rightarrow> error + decoded) \<Rightarrow> receipt \<Rightarrow> string option" where
  "decodeAgentId decodeEventLog r =
     (case registeredLog r of
        None \<Rightarrow> None
      | Some l \<Rightarrow>
          (case decodeEventLog (data l) (topics l) of
             Inl e \<Rightarrow> None
           | Inr d \<Rightarrow>
               (case args d of
                  None \<Rightarrow> None
                | Some a \<Rightarrow>
                    if eventName d = ''Registered'' then Some (toString (unat (agentId a)))
                    else None)))"

subsection \<open>Step 7: the registry reference\<close>

text \<open>
  \<^verbatim>\<open>parseInt(agentId, 10)\<close>: leading white space (ASCII here), an optional sign, the
  longest run of decimal digits, read as an integer and rounded to the nearest double
  (ties to even); \<^verbatim>\<open>NaN\<close> when there is no digit.
\<close>

definition isWhiteSpace :: "char \<Rightarrow> bool" where
  "isWhiteSpace c =
     (c = CHR 0x09 \<or> c = CHR 0x0A \<or> c = CHR 0x0B \<or> c = CHR 0x0C \<or> c = CHR 0x0D \<or>
      c = CHR '' '')"

definition isDigit :: "char \<Rightarrow> bool" where
  "isDigit c = (48 \<le> (of_char c :: nat) \<and> (of_char c :: nat) \<le> 57)"

definition digit_value :: "char \<Rightarrow> nat" where
  "digit_value c = of_char c - 48"

definition mathInt :: "string \<Rightarrow> nat" where
  "mathInt ds = foldl (\<lambda>acc c. acc * 10 + digit_value c) 0 ds"

fun bitLength :: "nat \<Rightarrow> nat" where
  "bitLength n = (if n = 0 then 0 else Suc (bitLength (n div 2)))"

declare bitLength.simps [simp del]

text \<open>
  The double nearest to a natural number: the number is cut to its 53 leading bits and
  the rest decides the rounding. \<open>None\<close> is the overflow to infinity.
\<close>

definition roundToDouble :: "nat \<Rightarrow> nat option" where
  "roundToDouble n =
     (let e = bitLength n - 53;
          q = n div 2 ^ e;
          r = n mod 2 ^ e;
          q' = (if 2 * r < 2 ^ e then q
                else if 2 ^ e < 2 * r then q + 1
                else if even q then q else q + 1);
          v = q' * 2 ^ e
      in if v < 2 ^ 1024 then Some v else None)"

definition parseInt :: "string \<Rightarrow> number" where
  "parseInt s =
     (let t = dropWhile isWhiteSpace s;
          negative = (case t of [] \<Rightarrow> False | c # _ \<Rightarrow> c = CHR ''-'');
          u = (case t of [] \<Rightarrow> [] | c # rest \<Rightarrow> if c = CHR ''+'' \<or> c = CHR ''-'' then rest else t);
          ds = takeWhile isDigit u
      in if ds = [] then NaN
         else (case roundToDouble (mathInt ds) of
                 None \<Rightarrow> if negative then NegInfinity else PosInfinity
               | Some v \<Rightarrow> Finite (if negative then - of_nat v else of_nat v)))"

definition agentRegistry :: string where
  "agentRegistry = ''eip155:84532:'' @ IDENTITY_REGISTRY"

text \<open>
  \<^verbatim>\<open>agentId ? parseInt(agentId, 10) : 'UNKNOWN'\<close>: \<^verbatim>\<open>null\<close> and the empty string are
  falsy.
\<close>

definition agentIdValue :: "string option \<Rightarrow> json" where
  "agentIdValue a =
     (case a of
        None \<Rightarrow> JString ''UNKNOWN''
      | Some s \<Rightarrow> if s = [] then JString ''UNKNOWN'' else JNumber (parseInt s))"

definition registrationEntry :: "string option \<Rightarrow> json" where
  "registrationEntry a =
     JObject [(''agentId'', agentIdValue a), (''agentRegistry'', JString agentRegistry)]"

text \<open>
  \<^verbatim>\<open>registration.registrations = [...]\<close>. On an object the property is replaced where it
  stands, or added after the others. An array takes the property too, but it is not one
  of its elements, so the value that \<^verbatim>\<open>JSON.stringify\<close> sees is the array as it was.
  On \<^verbatim>\<open>null\<close> the assignment throws, and in module code (strict) it throws on a
  boolean, a number and a string as well.
\<close>

definition setRegistrations :: "json \<Rightarrow> json \<Rightarrow> error + json" where
  "setRegistrations registration v =
     (case registration of
        JObject props \<Rightarrow> Inr (JObject (AList.update ''registrations'' v props))
      | JArray xs \<Rightarrow> Inr (JArray xs)
      | _ \<Rightarrow> Inl TypeError)"

text \<open>The state-recording step of the spec, lines 149 to 152.\<close>

definition recordRegistration :: "json \<Rightarrow> string option \<Rightarrow> error + json" where
  "recordRegistration registration a =
     setRegistrations registration (JArray [registrationEntry a])"

text \<open>\<^verbatim>\<open>registration.registrations\<close> read back from an object.\<close>

definition registrations :: "json \<Rightarrow> json option" where
  "registrations j = (case j of JObject props \<Rightarrow> map_of props ''registrations'' | _ \<Rightarrow> None)"

subsection \<open>The file system\<close>

type_synonym fs = "string \<rightharpoonup> string"

definition REGISTRATION_FILE :: string where
  "REGISTRATION_FILE = ''registration.json''"

definition readFile :: "fs \<Rightarrow> string \<Rightarrow> error + string" where
  "readFile d path = (case d path of None \<Rightarrow> Inl ENOENT | Some content \<Rightarrow> Inr content)"

text \<open>
  \<^verbatim>\<open>fs.writeFile(path, data)\<close> opens the path for writing, which empties the file, and
  then writes the data to it. The environment says where it fails, if it does: before
  the file is opened, or after some of the bytes are written.
\<close>

datatype write_fault = NoFault | OpenFails | WriteFailsAfter nat

definition writeFile :: "write_fault \<Rightarrow> fs \<Rightarrow> string \<Rightarrow> string \<Rightarrow> (error + unit) \<times> fs" where
  "writeFile fault d path content =
     (case fault of
        NoFault \<Rightarrow> (Inr (), d(path \<mapsto> content))
      | OpenFails \<Rightarrow> (Inl PersistenceError, d)
      | WriteFailsAfter n \<Rightarrow> (Inl PersistenceError, d(path \<mapsto> take n content)))"

subsection \<open>The main registration flow\<close>

text \<open>
  The outside world of one run: the environment variable, the files, the two
  \<^verbatim>\<open>JSON\<close> functions, the calls of the client library in the order in which
  \<^verbatim>\<open>main\<close> makes them, and how the final write ends.
\<close>

record env =
  PRIVATE_KEY :: "string option"
  disk :: fs
  JSON_parse :: "string \<Rightarrow> error + json"
  JSON_stringify :: "json \<Rightarrow> string"
  privateKeyToAccount :: "string \<Rightarrow> error + string"
  writeContract :: "string \<Rightarrow> string \<Rightarrow> string \<Rightarrow> error + string"
  waitForTransactionReceipt :: "string \<Rightarrow> error + receipt"
  decodeEventLog :: "string \<Rightarrow> string list \<Rightarrow> error + decoded"
  writeFault :: write_fault

text \<open>
  Steps 1 to 5, up to the hash of the submitted transaction. \<^verbatim>\<open>writeContract\<close> gets
  the account, the contract address and the argument of \<^verbatim>\<open>register\<close>.
\<close>

definition submit :: "env \<Rightarrow> error + (json \<times> string)" where
  "submit e =
     (case PRIVATE_KEY e of
        None \<Rightarrow> Inl (Error ''PRIVATE_KEY not set in .env'')
      | Some privateKey \<Rightarrow>
          if privateKey = [] then Inl (Error ''PRIVATE_KEY not set in .env'')
          else
            (case readFile (disk e) REGISTRATION_FILE of
               Inl err \<Rightarrow> Inl err
             | Inr registrationData \<Rightarrow>
                 (case JSON_parse e registrationData of
                    Inl err \<Rightarrow> Inl err
                  | Inr registration \<Rightarrow>
                      (let formattedKey =
                             (if startsWith privateKey ''0x'' then privateKey
                              else ''0x'' @ privateKey)
                       in case privateKeyToAccount e formattedKey of
                            Inl err \<Rightarrow> Inl err
                          | Inr account \<Rightarrow>
                              (case writeContract e account IDENTITY_REGISTRY
                                      (tokenURI registrationData) of
                                 Inl err \<Rightarrow> Inl err
                               | Inr hash \<Rightarrow> Inr (registration, hash))))))"

text \<open>
  Step 7, from the receipt on: the identifier is decoded, the record is updated and
  written over the file that was read.
\<close>

definition persist :: "env \<Rightarrow> json \<Rightarrow> receipt \<Rightarrow> (error + unit) \<times> fs" where
  "persist e registration r =
     (case recordRegistration registration (decodeAgentId (decodeEventLog e) r) of
        Inl err \<Rightarrow> (Inl err, disk e)
      | Inr registration' \<Rightarrow>
          writeFile (writeFault e) (disk e) REGISTRATION_FILE (JSON_stringify e registration'))"

text \<open>\<^verbatim>\<open>main\<close>: how the returned promise settles, and the file system it leaves.\<close>

definition main :: "env \<Rightarrow> (error + unit) \<times> fs" where
  "main e =
     (case submit e of
        Inl err \<Rightarrow> (Inl err, disk e)
      | Inr (registration, hash) \<Rightarrow>
          (case waitForTransactionReceipt e hash of
             Inl err \<Rightarrow> (Inl err, disk e)
           | Inr r \<Rightarrow> persist e registration r))"

subsection \<open>The last line of the script\<close>

text \<open>
  \<^verbatim>\<open>main().catch(console.error)\<close>. The handler prints the error and returns, so the
  promise it gives back is fulfilled. The process ends with status 1 on a rejection
  that nothing handles and with status 0 otherwise; the script sets no status itself.
\<close>

record outcome =
  exitStatus :: nat
  reported :: "error list"
  files :: fs

definition console_error :: "error \<Rightarrow> (error + unit) \<times> error list" where
  "console_error err = (Inr (), [err])"

definition promise_catch ::
  "error + unit \<Rightarrow> (error \<Rightarrow> (error + unit) \<times> error list) \<Rightarrow> (error + unit) \<times> error list" where
  "promise_catch p handler = (case p of Inl err \<Rightarrow> handler err | Inr v \<Rightarrow> (Inr v, []))"

definition statusOf :: "error + unit \<Rightarrow> nat" where
  "statusOf p = (case p of Inl err \<Rightarrow> 1 | Inr v \<Rightarrow> 0)"

definition script :: "env \<Rightarrow> outcome" where
  "script e =
     (let (settled, d) = main e;
          (final, printed) = promise_catch settled console_error
      in \<lparr>exitStatus = statusOf final, reported = printed, files = d\<rparr>)"

subsection \<open>Example runs\<close>

text \<open>
  A record with a name and one earlier registration on another network, and an
  environment around it: the key is set, the file holds the record, the transaction is
  accepted and confirmed. The logs of the receipt, the decoder of the client library
  and the fault of the final write are left open. \<open>exampleStringify\<close> stands in for
  \<^verbatim>\<open>JSON.stringify\<close> on the records of these runs and prints them on one line.
\<close>

definition exampleText :: string where
  \<open>exampleText =
     ''{"name":"A","registrations":[{"agentId":7,"agentRegistry":"eip155:1:0x01"}]}''\<close>

definition exampleRecord :: json where
  "exampleRecord =
     JObject [(''name'', JString ''A''),
              (''registrations'',
               JArray [JObject [(''agentId'', JNumber (Finite 7)),
                                (''agentRegistry'', JString ''eip155:1:0x01'')]])]"

definition exampleParse :: "string \<Rightarrow> error + json" where
  "exampleParse s = (if s = exampleText then Inr exampleRecord else Inl SyntaxError)"

definition exampleUpdated :: "json \<Rightarrow> json" where
  "exampleUpdated idv =
     JObject [(''name'', JString ''A''),
              (''registrations'',
               JArray [JObject [(''agentId'', idv),
                                (''agentRegistry'',
                                 JString ''eip155:84532:0x8004AA63c570c570eBF15376c0dB199918BFe9Fb'')]])]"

definition exampleStringify :: "json \<Rightarrow> string" where
  \<open>exampleStringify j =
     (if j = exampleUpdated (JNumber (Finite 42)) then
        ''{"name":"A","registrations":[{"agentId":42,"agentRegistry":"eip155:84532:0x8004AA63c570c570eBF15376c0dB199918BFe9Fb"}]}''
      else if j = exampleUpdated (JString ''UNKNOWN'') then
        ''{"name":"A","registrations":[{"agentId":"UNKNOWN","agentRegistry":"eip155:84532:0x8004AA63c570c570eBF15376c0dB199918BFe9Fb"}]}''
      else ''null'')\<close>

text \<open>
  Three logs: the Transfer event that the registry emits for the minted token, a log
  of another contract, and the Registered event of the registry (nodes report
  addresses in lower case).
\<close>

definition transferLog :: log where
  "transferLog =
     \<lparr>address = ''0x8004aa63c570c570ebf15376c0db199918bfe9fb'',
      topics = [''0xddf252ad1be2c89b69c2b068fc378daa952ba7f163c4a11628f55a4df523b3ef''],
      data = ''0x''\<rparr>"

definition foreignLog :: log where
  "foreignLog =
     \<lparr>address = ''0x4200000000000000000000000000000000000006'',
      topics = [''0xca52e62c367d81bb2e328eb795f7c7ba24afb478408a26c0e201d155c449bc4a''],
      data = ''0x''\<rparr>"

definition registeredLog42 :: log where
  "registeredLog42 =
     \<lparr>address = ''0x8004aa63c570c570ebf15376c0db199918bfe9fb'',
      topics = [''0xca52e62c367d81bb2e328eb795f7c7ba24afb478408a26c0e201d155c449bc4a'',
                ''0x000000000000000000000000000000000000000000000000000000000000002a''],
      data = ''0x20''\<rparr>"

definition decode42 :: "string \<Rightarrow> string list \<Rightarrow> error + decoded" where
  "decode42 d ts =
     Inr \<lparr>eventName = ''Registered'',
          args = Some \<lparr>agentId = 42, agentURI = ''data:'', owner = ''0x01''\<rparr>\<rparr>"

definition decodeBig :: "string \<Rightarrow> string list \<Rightarrow> error + decoded" where
  "decodeBig d ts =
     Inr \<lparr>eventName = ''Registered'',
          args = Some \<lparr>agentId = 9007199254740993, agentURI = ''data:'', owner = ''0x01''\<rparr>\<rparr>"

definition decodeFails :: "string \<Rightarrow> string list \<Rightarrow> error + decoded" where
  "decodeFails d ts = Inl AbiDecodingError"

text \<open>
  A complete Registered event of the registry, with the identifier 42 and the owner in
  its topics and the URI \<^verbatim>\<open>data:\<close> in its data, and a decoder for such events. The
  decoder stands in for the one of the client library on the example runs: it reads the
  fields where the ABI of the event puts them, and fails on a log that does not have
  the three topics or whose data is not one encoded string.
\<close>

definition completeLog42 :: log where
  "completeLog42 =
     \<lparr>address = ''0x8004aa63c570c570ebf15376c0db199918bfe9fb'',
      topics = [''0xca52e62c367d81bb2e328eb795f7c7ba24afb478408a26c0e201d155c449bc4a'',
                ''0x000000000000000000000000000000000000000000000000000000000000002a'',
                ''0x000000000000000000000000f39fd6e51aad88f6f4ce6ab8827279cfffb92266''],
      data = ''0x'' @
             ''0000000000000000000000000000000000000000000000000000000000000020'' @
             ''0000000000000000000000000000000000000000000000000000000000000005'' @
             ''646174613a000000000000000000000000000000000000000000000000000000''\<rparr>"

definition hexDigit :: "char \<Rightarrow> nat option" where
  "hexDigit c =
     (let n = of_char c :: nat
      in if 48 \<le> n \<and> n \<le> 57 then Some (n - 48)
         else if 97 \<le> n \<and> n \<le> 102 then Some (n - 87)
         else if 65 \<le> n \<and> n \<le> 70 then Some (n - 55)
         else None)"

fun hexValue :: "nat \<Rightarrow> string \<Rightarrow> nat option" where
  "hexValue acc [] = Some acc"
| "hexValue acc (c # cs) =
     (case hexDigit c of None \<Rightarrow> None | Some d \<Rightarrow> hexValue (acc * 16 + d) cs)"

fun hexBytes :: "string \<Rightarrow> string option" where
  "hexBytes [] = Some []"
| "hexBytes [a] = None"
| "hexBytes (a # b # rest) =
     (case (hexDigit a, hexDigit b) of
        (Some x, Some y) \<Rightarrow> map_option (\<lambda>bytes. char_of (x * 16 + y) # bytes) (hexBytes rest)
      | _ \<Rightarrow> None)"

definition abiString :: "string \<Rightarrow> string option" where
  "abiString d =
     (case (hexValue 0 (take 64 (drop 2 d)), hexValue 0 (take 64 (drop 66 d))) of
        (Some offset, Some len) \<Rightarrow>
          if take 2 d = ''0x'' \<and> offset = 32 \<and> length d = 130 + 64 * ((len + 31) div 32)
          then hexBytes (take (2 * len) (drop 130 d))
          else None
      | _ \<Rightarrow> None)"

definition exampleDecoder :: "string \<Rightarrow> string list \<Rightarrow> error + decoded" where
  "exampleDecoder d ts =
     (case ts of
        [signature, idTopic, ownerTopic] \<Rightarrow>
          if signature = REGISTERED_EVENT_SIG \<and> length idTopic = 66 \<and> length ownerTopic = 66
          then
            (case (hexValue 0 (drop 2 idTopic), abiString d) of
               (Some n, Some uri) \<Rightarrow>
                 Inr \<lparr>eventName = ''Registered'',
                      args = Some \<lparr>agentId = of_nat n, agentURI = uri,
                                   owner = ''0x'' @ drop 26 ownerTopic\<rparr>\<rparr>
             | _ \<Rightarrow> Inl AbiDecodingError)
          else Inl AbiDecodingError
      | _ \<Rightarrow> Inl AbiDecodingError)"

definition exampleEnv ::
  "(error + receipt) \<Rightarrow> (string \<Rightarrow> string list \<Rightarrow> error + decoded) \<Rightarrow> write_fault \<Rightarrow> env" where
  "exampleEnv waited dec fault =
     \<lparr>PRIVATE_KEY = Some ''ac0974bec39a17e36ba4a6b4d238ff944bacb478cbed5efcae784d7bf4f2ff80'',
      disk = [REGISTRATION_FILE \<mapsto> exampleText],
      JSON_parse = exampleParse,
      JSON_stringify = exampleStringify,
      privateKeyToAccount = (\<lambda>key. Inr ''0xf39Fd6e51aad88F6F4ce6aB8827279cffFb92266''),
      writeContract = (\<lambda>account target uri. Inr ''0x5c504ed4''),
      waitForTransactionReceipt = (\<lambda>hash. waited),
      decodeEventLog = dec,
      writeFault = fault\<rparr>"

definition envWithoutKey :: env where
  "envWithoutKey = (exampleEnv (Inr \<lparr>logs = []\<rparr>) decode42 NoFault)\<lparr>PRIVATE_KEY := None\<rparr>"

section \<open>Properties\<close>

subsection \<open>The token URI is reversible\<close>

lemma index_of_nth: "distinct xs \<Longrightarrow> i < length xs \<Longrightarrow> index_of (xs ! i) xs = Some i"
proof (induction xs arbitrary: i)
  case Nil
  then show ?case by simp
next
  case (Cons x xs)
  show ?case
  proof (cases i)
    case 0
    then show ?thesis by simp
  next
    case (Suc j)
    with Cons.prems have "xs ! j \<noteq> x" "j < length xs" "distinct xs" by auto
    with Cons.IH [of j] Suc show ?thesis by simp
  qed
qed

lemma char_sextet_sextet_char: "i < 64 \<Longrightarrow> char_sextet (sextet_char i) = Some i"
  unfolding char_sextet_def sextet_char_def
  by (rule index_of_nth) (simp_all add: base64_alphabet_def)

lemma index_of_not_member: "c \<notin> set xs \<Longrightarrow> index_of c xs = None"
  by (induction xs) auto

lemma char_sextet_pad: "char_sextet (CHR ''='') = None"
  unfolding char_sextet_def by (rule index_of_not_member) (simp add: base64_alphabet_def)

lemma sextet_char_not_pad: "i < 64 \<Longrightarrow> sextet_char i \<noteq> CHR ''=''"
  using char_sextet_sextet_char [of i] char_sextet_pad by auto

lemma sextet_bounds:
  fixes x y z :: nat
  assumes "x < 256" "y < 256" "z < 256"
  shows "x div 4 < 64" "x mod 4 * 16 < 64" "x mod 4 * 16 + y div 16 < 64"
    "y mod 16 * 4 < 64" "y mod 16 * 4 + z div 64 < 64" "z mod 64 < 64"
  using assms by auto

lemma split_sum:
  fixes a b n :: nat
  assumes "b < n"
  shows "(a * n + b) div n = a" and "(a * n + b) mod n = b"
  using assms by simp_all

lemma regroup:
  fixes x y z :: nat
  assumes "y < 256" "z < 256"
  shows "x div 4 * 4 + (x mod 4 * 16) div 16 = x"
    "x div 4 * 4 + (x mod 4 * 16 + y div 16) div 16 = x"
    "(x mod 4 * 16 + y div 16) mod 16 * 16 + (y mod 16 * 4) div 4 = y"
    "(x mod 4 * 16 + y div 16) mod 16 * 16 + (y mod 16 * 4 + z div 64) div 4 = y"
    "(y mod 16 * 4 + z div 64) mod 4 * 64 + z mod 64 = z"
proof -
  from assms have y: "y div 16 < 16" and z: "z div 64 < 4" by simp_all
  then have ym: "y div 16 mod 16 = y div 16" and zm: "z div 64 mod 4 = z div 64"
    by simp_all
  show "x div 4 * 4 + (x mod 4 * 16) div 16 = x" by simp
  show "x div 4 * 4 + (x mod 4 * 16 + y div 16) div 16 = x"
    by (simp add: split_sum [OF y])
  show "(x mod 4 * 16 + y div 16) mod 16 * 16 + (y mod 16 * 4) div 4 = y"
    by (simp add: ym)
  show "(x mod 4 * 16 + y div 16) mod 16 * 16 + (y mod 16 * 4 + z div 64) div 4 = y"
    by (simp add: ym split_sum [OF z])
  show "(y mod 16 * 4 + z div 64) mod 4 * 64 + z mod 64 = z"
    by (simp add: zm)
qed

lemma quad_one:
  assumes "i < 64" "j < 64"
  shows "unbase64 [sextet_char i, sextet_char j, CHR ''='', CHR ''='']
         = Some [char_of (i * 4 + j div 16)]"
  using assms by (simp add: char_sextet_sextet_char)

lemma quad_two:
  assumes "i < 64" "j < 64" "k < 64"
  shows "unbase64 [sextet_char i, sextet_char j, sextet_char k, CHR ''='']
         = Some [char_of (i * 4 + j div 16), char_of (j mod 16 * 16 + k div 4)]"
  using assms by (simp add: char_sextet_sextet_char sextet_char_not_pad)

lemma quad_three:
  assumes "i < 64" "j < 64" "k < 64" "l < 64"
  shows "unbase64 (sextet_char i # sextet_char j # sextet_char k # sextet_char l # rest)
         = map_option
             (\<lambda>bytes. char_of (i * 4 + j div 16) # char_of (j mod 16 * 16 + k div 4) #
                char_of (k mod 4 * 64 + l) # bytes)
             (unbase64 rest)"
  using assms by (simp add: char_sextet_sextet_char sextet_char_not_pad)

lemma unbase64_base64: "unbase64 (base64 m) = Some m"
proof (induction m rule: base64.induct)
  case 1
  show ?case by simp
next
  case (2 a)
  define x :: nat where "x = of_char a"
  have x: "x < 256" by (simp add: x_def)
  have "unbase64 (base64 [a]) =
      unbase64 [sextet_char (x div 4), sextet_char (x mod 4 * 16), CHR ''='', CHR ''='']"
    by (simp add: x_def Let_def)
  also have "\<dots> = Some [char_of (x div 4 * 4 + (x mod 4 * 16) div 16)]"
    by (rule quad_one) (rule sextet_bounds [OF x x x])+
  also have "\<dots> = Some [char_of x]"
    by (simp only: regroup [OF x x])
  finally show ?case by (simp add: x_def)
next
  case (3 a b)
  define x :: nat where "x = of_char a"
  define y :: nat where "y = of_char b"
  have x: "x < 256" and y: "y < 256" by (simp_all add: x_def y_def)
  have "unbase64 (base64 [a, b]) =
      unbase64 [sextet_char (x div 4), sextet_char (x mod 4 * 16 + y div 16),
        sextet_char (y mod 16 * 4), CHR ''='']"
    by (simp add: x_def y_def Let_def)
  also have "\<dots> = Some [char_of (x div 4 * 4 + (x mod 4 * 16 + y div 16) div 16),
      char_of ((x mod 4 * 16 + y div 16) mod 16 * 16 + (y mod 16 * 4) div 4)]"
    by (rule quad_two) (rule sextet_bounds [OF x y y])+
  also have "\<dots> = Some [char_of x, char_of y]"
    by (simp only: regroup [OF y y])
  finally show ?case by (simp add: x_def y_def)
next
  case (4 a b c rest)
  define x :: nat where "x = of_char a"
  define y :: nat where "y = of_char b"
  define z :: nat where "z = of_char c"
  have x: "x < 256" and y: "y < 256" and z: "z < 256"
    by (simp_all add: x_def y_def z_def)
  have "unbase64 (base64 (a # b # c # rest)) =
      unbase64 (sextet_char (x div 4) # sextet_char (x mod 4 * 16 + y div 16) #
        sextet_char (y mod 16 * 4 + z div 64) # sextet_char (z mod 64) # base64 rest)"
    by (simp add: x_def y_def z_def Let_def del: unbase64.simps)
  also have "\<dots> = map_option
      (\<lambda>bytes. char_of (x div 4 * 4 + (x mod 4 * 16 + y div 16) div 16) #
         char_of ((x mod 4 * 16 + y div 16) mod 16 * 16 + (y mod 16 * 4 + z div 64) div 4) #
         char_of ((y mod 16 * 4 + z div 64) mod 4 * 64 + z mod 64) # bytes)
      (unbase64 (base64 rest))"
    by (rule quad_three) (rule sextet_bounds [OF x y z])+
  also have "\<dots> = Some (char_of x # char_of y # char_of z # rest)"
    by (simp only: regroup [OF y z] "4.IH" option.map)
  finally show ?case by (simp add: x_def y_def z_def)
qed

text \<open>
  Claim C3. For every metadata byte string \<open>M\<close>, decoding the URI that the encoder
  produces gives \<open>M\<close> back; the metadata \<^verbatim>\<open>{"name":"A"}\<close> is encoded to the URI that
  carries the base64 text \<^verbatim>\<open>eyJuYW1lIjoiQSJ9\<close>, and decoding that URI recovers it.
\<close>

theorem tokenURI_roundtrip:
  \<open>decodeTokenURI (tokenURI M) = Some M \<and>
   tokenURI ''{"name":"A"}'' = ''data:application/json;base64,eyJuYW1lIjoiQSJ9'' \<and>
   decodeTokenURI ''data:application/json;base64,eyJuYW1lIjoiQSJ9'' = Some ''{"name":"A"}''\<close>
proof -
  have rt: "decodeTokenURI (tokenURI m) = Some m" for m
    by (simp add: decodeTokenURI_def tokenURI_def startsWith_def unbase64_base64)
  have ex: \<open>tokenURI ''{"name":"A"}'' = ''data:application/json;base64,eyJuYW1lIjoiQSJ9''\<close>
    by (simp add: tokenURI_def DATA_URI_PREFIX_def sextet_char_def base64_alphabet_def)
  from rt [of \<open>''{"name":"A"}''\<close>] ex rt [of M] show ?thesis by simp
qed

theorem tokenURI_roundtrip_witness:
  "decodeTokenURI (tokenURI ''{}'') = Some ''{}'' \<and>
   tokenURI ''{}'' = ''data:application/json;base64,e30=''"
proof -
  have "tokenURI ''{}'' = ''data:application/json;base64,e30=''"
    by (simp add: tokenURI_def DATA_URI_PREFIX_def sextet_char_def base64_alphabet_def)
  with tokenURI_roundtrip [of "''{}''"] show ?thesis by simp
qed

subsection \<open>Decimal text and numbers\<close>

lemma digit_value_digit_char: "d < 10 \<Longrightarrow> digit_value (digit_char d) = d"
  by (simp add: digit_value_def digit_char_def)

lemma isDigit_digit_char: "d < 10 \<Longrightarrow> isDigit (digit_char d)"
  by (simp add: isDigit_def digit_char_def)

lemma mathInt_snoc: "mathInt (ds @ [c]) = mathInt ds * 10 + digit_value c"
  by (simp add: mathInt_def)

lemma mathInt_toString: "mathInt (toString n) = n"
proof (induction n rule: toString.induct)
  case (1 n)
  show ?case
  proof (cases "n < 10")
    case True
    then show ?thesis
      by (simp add: toString.simps [of n] mathInt_def digit_value_digit_char)
  next
    case False
    with 1 have "mathInt (toString (n div 10)) = n div 10" by simp
    with False show ?thesis
      by (simp add: toString.simps [of n] mathInt_snoc digit_value_digit_char)
  qed
qed

lemma toString_digits: "c \<in> set (toString n) \<Longrightarrow> isDigit c"
proof (induction n rule: toString.induct)
  case (1 n)
  show ?case
  proof (cases "n < 10")
    case True
    with "1.prems" show ?thesis
      by (simp add: toString.simps [of n] isDigit_digit_char)
  next
    case False
    with "1.prems" "1.IH" show ?thesis
      by (auto simp add: toString.simps [of n] isDigit_digit_char)
  qed
qed

lemma toString_not_empty: "toString n \<noteq> []"
  by (simp add: toString.simps [of n])

lemma isDigit_plain:
  assumes "isDigit c"
  shows "\<not> isWhiteSpace c" "c \<noteq> CHR ''+''" "c \<noteq> CHR ''-''"
  using assms by (auto simp add: isDigit_def isWhiteSpace_def)

lemma parseInt_toString:
  "parseInt (toString n) =
     (case roundToDouble n of None \<Rightarrow> PosInfinity | Some v \<Rightarrow> Finite (of_nat v))"
proof -
  obtain c cs where s: "toString n = c # cs"
    using toString_not_empty [of n] by (cases "toString n") auto
  have c: "isDigit c" using toString_digits [of c n] s by simp
  have tw: "takeWhile isDigit (toString n) = toString n"
    by (rule takeWhile_eq_all_conv [THEN iffD2]) (simp add: toString_digits)
  have dw: "dropWhile isWhiteSpace (c # cs) = c # cs"
    using isDigit_plain(1) [OF c] by simp
  show ?thesis
    unfolding parseInt_def s dw Let_def
    using isDigit_plain [OF c] tw [unfolded s] mathInt_toString [of n, unfolded s]
    by (simp split: option.splits)
qed

lemma bitLength_le: "n < 2 ^ k \<Longrightarrow> bitLength n \<le> k"
proof (induction k arbitrary: n)
  case 0
  then show ?case by (simp add: bitLength.simps [of 0])
next
  case (Suc k)
  then have "n div 2 < 2 ^ k" by simp
  from Suc.IH [OF this] show ?case by (simp add: bitLength.simps [of n])
qed

lemma roundToDouble_exact: "n < 2 ^ 53 \<Longrightarrow> roundToDouble n = Some n"
proof -
  assume n: "n < 2 ^ 53"
  then have "bitLength n - 53 = 0" using bitLength_le [of n 53] by simp
  moreover have "n < 2 ^ 1024"
  proof -
    have "(2::nat) ^ 53 \<le> 2 ^ 1024" by (rule power_increasing) simp_all
    with n show ?thesis by simp
  qed
  ultimately show ?thesis by (simp add: roundToDouble_def)
qed

lemma roundToDouble_finite:
  assumes "n < 2 ^ 256"
  shows "\<exists>v. roundToDouble n = Some v"
proof -
  define e where "e = bitLength n - 53"
  define q where "q = n div 2 ^ e"
  define q' where "q' = (if 2 * (n mod 2 ^ e) < 2 ^ e then q
                else if 2 ^ e < 2 * (n mod 2 ^ e) then q + 1
                else if even q then q else q + 1)"
  have "e \<le> 256" using bitLength_le [OF assms] by (simp add: e_def)
  then have pe: "(2::nat) ^ e \<le> 2 ^ 256" by (rule power_increasing) simp
  have "q' \<le> q + 1" by (simp add: q'_def)
  then have "q' * 2 ^ e \<le> (q + 1) * 2 ^ e" by (rule mult_le_mono1)
  also have "\<dots> = q * 2 ^ e + 2 ^ e" by (simp add: algebra_simps)
  also have "q * 2 ^ e \<le> n" by (simp add: q_def)
  finally have "q' * 2 ^ e \<le> n + 2 ^ e" by simp
  with pe assms have "q' * 2 ^ e < 2 ^ 256 + 2 ^ 256" by linarith
  also have "(2::nat) ^ 256 + 2 ^ 256 = 2 ^ 257" by simp
  also have "(2::nat) ^ 257 \<le> 2 ^ 1024" by (rule power_increasing) simp_all
  finally have "q' * 2 ^ e < 2 ^ 1024" .
  then show ?thesis
    unfolding roundToDouble_def Let_def e_def [symmetric] q_def [symmetric] q'_def [symmetric]
    by simp
qed

lemma bitLength_numeral:
  "bitLength 0 = 0" "bitLength 1 = 1" "bitLength (Suc 0) = 1"
  "bitLength (numeral k) = Suc (bitLength (numeral k div 2))"
  by (simp_all add: bitLength.simps [of 0] bitLength.simps [of 1] bitLength.simps [of "Suc 0"]
      bitLength.simps [of "numeral k"])

lemma bitLength_big: "bitLength 9007199254740993 = 54"
  by (simp add: bitLength_numeral)

lemma roundToDouble_big: "roundToDouble 9007199254740993 = Some 9007199254740992"
proof -
  have "(9007199254740992::nat) < 2 ^ 1024"
  proof -
    have "(2::nat) ^ 53 \<le> 2 ^ 1024" by (rule power_increasing) simp_all
    then show ?thesis by simp
  qed
  then show ?thesis
  by (simp add: roundToDouble_def bitLength_big)
qed


subsection \<open>Decoding the Registered event\<close>

lemma find_none: "(\<And>x. x \<in> set xs \<Longrightarrow> \<not> P x) \<Longrightarrow> find P xs = None"
  by (induction xs) auto

lemma toString_42: "toString 42 = ''42''"
  by (simp add: toString.simps [of 42] toString.simps [of 4] digit_char_def char_of_eq_iff)

lemma parseInt_small: "n < 2 ^ 53 \<Longrightarrow> parseInt (toString n) = Finite (of_nat n)"
  by (simp add: parseInt_toString roundToDouble_exact)

lemma agentIdValue_toString:
  "agentIdValue (Some (toString n)) = JNumber (parseInt (toString n))"
  by (simp add: agentIdValue_def toString_not_empty)

lemma decodeAgentId_Registered:
  assumes "registeredLog r = Some l"
    and "dec (data l) (topics l) = Inr \<lparr>eventName = ''Registered'', args = Some a\<rparr>"
  shows "decodeAgentId dec r = Some (toString (unat (agentId a)))"
  using assms by (simp add: decodeAgentId_def)


lemma agentIdValue_42: "agentIdValue (Some ''42'') = JNumber (Finite 42)"
  using parseInt_small [of 42] agentIdValue_toString [of 42] by (simp add: toString_42)

lemma lower_registry:
  "toLowerCase IDENTITY_REGISTRY = ''0x8004aa63c570c570ebf15376c0db199918bfe9fb''"
  by (simp add: toLowerCase_def IDENTITY_REGISTRY_def toLowerCase_char_def char_of_eq_iff)

lemma example_logs:
  "\<not> isRegisteredLog transferLog" "\<not> isRegisteredLog foreignLog"
  "isRegisteredLog registeredLog42"
  unfolding isRegisteredLog_def lower_registry
  by (simp_all add: transferLog_def foreignLog_def registeredLog42_def topic0_def
      REGISTERED_EVENT_SIG_def toLowerCase_def toLowerCase_char_def char_of_eq_iff)

lemma hexDigit_simps:
  "hexDigit CHR ''0'' = Some 0" "hexDigit CHR ''2'' = Some 2" "hexDigit CHR ''a'' = Some 10"
  "hexDigit CHR ''5'' = Some 5" "hexDigit CHR ''6'' = Some 6" "hexDigit CHR ''4'' = Some 4"
  "hexDigit CHR ''1'' = Some 1" "hexDigit CHR ''7'' = Some 7" "hexDigit CHR ''3'' = Some 3"
  by (simp_all add: hexDigit_def)

lemma exampleDecoder_complete:
  "exampleDecoder (data completeLog42) (topics completeLog42) =
     Inr \<lparr>eventName = ''Registered'',
          args = Some \<lparr>agentId = 42, agentURI = ''data:'',
                       owner = ''0xf39fd6e51aad88f6f4ce6ab8827279cfffb92266''\<rparr>\<rparr>"
  by (simp add: exampleDecoder_def completeLog42_def REGISTERED_EVENT_SIG_def abiString_def
      hexDigit_simps char_of_eq_iff)

lemma find_first:
  assumes "\<forall>x \<in> set before. \<not> P x" and "P l"
  shows "find P (before @ l # after) = Some l"
  using assms by (induction before) simp_all

lemma isRegisteredLog_fields:
  "isRegisteredLog x \<longleftrightarrow>
     toLowerCase (address x) = toLowerCase IDENTITY_REGISTRY \<and>
     (\<exists>ts. topics x = REGISTERED_EVENT_SIG # ts)"
  by (cases "topics x") (simp_all add: isRegisteredLog_def topic0_def)

lemma registeredLog_first:
  assumes "logs r = before @ l # after"
    and "\<forall>x \<in> set before.
           toLowerCase (address x) \<noteq> toLowerCase IDENTITY_REGISTRY \<or>
           (\<forall>ts. topics x \<noteq> REGISTERED_EVENT_SIG # ts)"
    and "toLowerCase (address l) = toLowerCase IDENTITY_REGISTRY"
    and "topics l = REGISTERED_EVENT_SIG # ts"
  shows "registeredLog r = Some l"
proof -
  from assms(2) have "\<forall>x \<in> set before. \<not> isRegisteredLog x"
    by (auto simp add: isRegisteredLog_fields)
  moreover from assms(3,4) have "isRegisteredLog l"
    by (simp add: isRegisteredLog_fields)
  ultimately show ?thesis
    unfolding registeredLog_def assms(1) by (rule find_first)
qed


text \<open>
  Claim C1. When a log of the receipt comes from the registry address and has the
  Registered signature as its first topic, and no log before it in the sequence does
  (as when it is the only such log), the decoding step takes that log and yields the
  identifier that the decoder finds in it: its decimal text, which reads back as the
  identifier. For the identifier 42 the step yields 42.
\<close>

theorem registered_event_resolved:
  assumes "logs r = before @ l # after"
    and "\<forall>x \<in> set before.
           toLowerCase (address x) \<noteq> toLowerCase IDENTITY_REGISTRY \<or>
           (\<forall>ts. topics x \<noteq> REGISTERED_EVENT_SIG # ts)"
    and "toLowerCase (address l) = toLowerCase IDENTITY_REGISTRY"
    and "topics l = REGISTERED_EVENT_SIG # ts"
    and "dec (data l) (topics l) = Inr \<lparr>eventName = ''Registered'', args = Some a\<rparr>"
  shows "registeredLog r = Some l \<and>
         decodeAgentId dec r = Some (toString (unat (agentId a))) \<and>
         mathInt (toString (unat (agentId a))) = unat (agentId a) \<and>
         (agentId a = 42 \<longrightarrow>
            decodeAgentId dec r = Some ''42'' \<and>
            agentIdValue (decodeAgentId dec r) = JNumber (Finite 42))"
proof -
  have f: "registeredLog r = Some l"
    using assms(1-4) by (rule registeredLog_first)
  have d: "decodeAgentId dec r = Some (toString (unat (agentId a)))"
    using f assms(5) by (rule decodeAgentId_Registered)
  have m: "mathInt (toString (unat (agentId a))) = unat (agentId a)"
    by (rule mathInt_toString)
  have k: "agentId a = 42 \<longrightarrow>
      decodeAgentId dec r = Some ''42'' \<and>
      agentIdValue (decodeAgentId dec r) = JNumber (Finite 42)"
    by (simp add: d toString_42 agentIdValue_42)
  show ?thesis by (intro conjI) (rule f d m k)+
qed

theorem registered_event_resolved_witness:
  "exampleDecoder (data completeLog42) (topics completeLog42) =
     Inr \<lparr>eventName = ''Registered'',
          args = Some \<lparr>agentId = 42, agentURI = ''data:'',
                       owner = ''0xf39fd6e51aad88f6f4ce6ab8827279cfffb92266''\<rparr>\<rparr> \<and>
   registeredLog \<lparr>logs = [transferLog, foreignLog, completeLog42]\<rparr> = Some completeLog42 \<and>
   decodeAgentId exampleDecoder \<lparr>logs = [transferLog, foreignLog, completeLog42]\<rparr>
     = Some ''42'' \<and>
   agentIdValue (decodeAgentId exampleDecoder \<lparr>logs = [transferLog, foreignLog, completeLog42]\<rparr>)
     = JNumber (Finite 42)"
proof -
  let ?r = "\<lparr>logs = [transferLog, foreignLog, completeLog42]\<rparr>"
  let ?a = "\<lparr>agentId = 42, agentURI = ''data:'',
             owner = ''0xf39fd6e51aad88f6f4ce6ab8827279cfffb92266''\<rparr>"
  have l: "logs ?r = [transferLog, foreignLog] @ completeLog42 # []" by simp
  have b: "\<forall>x \<in> set [transferLog, foreignLog].
      toLowerCase (address x) \<noteq> toLowerCase IDENTITY_REGISTRY \<or>
      (\<forall>ts. topics x \<noteq> REGISTERED_EVENT_SIG # ts)"
    unfolding lower_registry
    by (simp add: transferLog_def foreignLog_def REGISTERED_EVENT_SIG_def toLowerCase_def
        toLowerCase_char_def char_of_eq_iff)
  have c: "toLowerCase (address completeLog42) = toLowerCase IDENTITY_REGISTRY"
    unfolding lower_registry
    by (simp add: completeLog42_def toLowerCase_def toLowerCase_char_def char_of_eq_iff)
  have t: "topics completeLog42 = REGISTERED_EVENT_SIG #
      [''0x000000000000000000000000000000000000000000000000000000000000002a'',
       ''0x000000000000000000000000f39fd6e51aad88f6f4ce6ab8827279cfffb92266'']"
    by (simp add: completeLog42_def REGISTERED_EVENT_SIG_def)
  note d = exampleDecoder_complete
  have s: "agentId ?a = 42" by simp
  note th = registered_event_resolved [of ?r _ completeLog42 _ _ exampleDecoder ?a,
      OF l b c t d, unfolded s]
  from th have x: "registeredLog ?r = Some completeLog42" by (rule conjunct1)
  from th have "(42 :: 256 word) = 42 \<longrightarrow>
      decodeAgentId exampleDecoder ?r = Some ''42'' \<and>
      agentIdValue (decodeAgentId exampleDecoder ?r) = JNumber (Finite 42)"
    by (elim conjE)
  then have yz: "decodeAgentId exampleDecoder ?r = Some ''42'' \<and>
      agentIdValue (decodeAgentId exampleDecoder ?r) = JNumber (Finite 42)"
    by (rule mp) (rule refl)
  from yz have y: "decodeAgentId exampleDecoder ?r = Some ''42''" by (rule conjunct1)
  from yz have z: "agentIdValue (decodeAgentId exampleDecoder ?r) = JNumber (Finite 42)"
    by (rule conjunct2)
  show ?thesis by (intro conjI) (rule d x y z)+
qed

subsection \<open>The run from the receipt on\<close>

lemma main_persist:
  assumes "submit e = Inr (registration, hash)"
    and "waitForTransactionReceipt e hash = Inr r"
  shows "main e = persist e registration r"
  using assms by (simp add: main_def)

lemma main_aborts:
  "submit e = Inl err \<Longrightarrow> main e = (Inl err, disk e)"
  "submit e = Inr (registration, hash) \<Longrightarrow> waitForTransactionReceipt e hash = Inl err \<Longrightarrow>
     main e = (Inl err, disk e)"
  by (simp_all add: main_def)

lemma recordRegistration_object:
  "recordRegistration (JObject props) a =
     Inr (JObject (AList.update ''registrations'' (JArray [registrationEntry a]) props))"
  by (simp add: recordRegistration_def setRegistrations_def)

lemma persist_object:
  "persist e (JObject props) r =
     writeFile (writeFault e) (disk e) REGISTRATION_FILE
       (JSON_stringify e
          (JObject (AList.update ''registrations''
             (JArray [registrationEntry (decodeAgentId (decodeEventLog e) r)]) props)))"
  by (simp add: persist_def recordRegistration_object)

lemma agentRegistry_text:
  "agentRegistry = ''eip155:84532:0x8004AA63c570c570eBF15376c0dB199918BFe9Fb''"
  by (simp add: agentRegistry_def IDENTITY_REGISTRY_def)

lemma agentIdValue_None: "agentIdValue None = JString ''UNKNOWN''"
  by (simp add: agentIdValue_def)

lemma decodeAgentId_no_log:
  assumes "\<And>l. l \<in> set (logs r) \<Longrightarrow> toLowerCase (address l) \<noteq> toLowerCase IDENTITY_REGISTRY"
  shows "decodeAgentId dec r = None"
proof -
  have "find isRegisteredLog (logs r) = None"
    by (rule find_none) (simp add: isRegisteredLog_def assms)
  then show ?thesis by (simp add: decodeAgentId_def registeredLog_def)
qed

lemma decodeAgentId_throws:
  assumes "registeredLog r = Some l" and "dec (data l) (topics l) = Inl err"
  shows "decodeAgentId dec r = None"
  using assms by (simp add: decodeAgentId_def)

lemma decodeAgentId_cases:
  "decodeAgentId dec r = None \<or> (\<exists>w :: 256 word. decodeAgentId dec r = Some (toString (unat w)))"
  by (auto simp add: decodeAgentId_def split: option.splits sum.splits)

lemma agentIdValue_integer:
  fixes w :: "256 word"
  shows "\<exists>v :: nat. agentIdValue (Some (toString (unat w))) = JNumber (Finite (of_nat v))"
proof -
  have "unat w < 2 ^ 256" using unsigned_less [of w, where 'a = nat] by simp
  from roundToDouble_finite [OF this] obtain v where "roundToDouble (unat w) = Some v" ..
  then have "agentIdValue (Some (toString (unat w))) = JNumber (Finite (of_nat v))"
    by (simp add: agentIdValue_toString parseInt_toString)
  then show ?thesis ..
qed

subsection \<open>The example runs\<close>

lemma submit_example:
  "submit (exampleEnv waited dec fault) = Inr (exampleRecord, ''0x5c504ed4'')"
  by (simp add: submit_def exampleEnv_def readFile_def REGISTRATION_FILE_def exampleParse_def
      startsWith_def)

lemma example_fields:
  "disk (exampleEnv waited dec fault) = [REGISTRATION_FILE \<mapsto> exampleText]"
  "JSON_stringify (exampleEnv waited dec fault) = exampleStringify"
  "waitForTransactionReceipt (exampleEnv waited dec fault) hash = waited"
  "decodeEventLog (exampleEnv waited dec fault) = dec"
  "writeFault (exampleEnv waited dec fault) = fault"
  by (simp_all add: exampleEnv_def)

subsection \<open>Unresolved identifiers and repeated recording\<close>

lemma writeFile_NoFault:
  "writeFile NoFault d path content = (Inr (), d(path \<mapsto> content))"
  by (simp add: writeFile_def)

text \<open>
  Claim C2. When every log of the receipt comes from an address other than the registry,
  and when the matching log fails to decode, the decoding step leaves the identifier
  unresolved and raises nothing: the run goes on to the write, with the entry
  \<^verbatim>\<open>UNKNOWN\<close>, and succeeds when the write does.
\<close>

theorem unresolved_is_not_an_error:
  assumes "submit e = Inr (JObject props, hash)"
    and "waitForTransactionReceipt e hash = Inr r"
    and "(\<forall>l \<in> set (logs r). toLowerCase (address l) \<noteq> toLowerCase IDENTITY_REGISTRY) \<or>
         (\<exists>l err. registeredLog r = Some l \<and> decodeEventLog e (data l) (topics l) = Inl err)"
  shows "decodeAgentId (decodeEventLog e) r = None \<and>
         main e =
           writeFile (writeFault e) (disk e) REGISTRATION_FILE
             (JSON_stringify e
                (JObject (AList.update ''registrations''
                   (JArray [JObject [(''agentId'', JString ''UNKNOWN''),
                                     (''agentRegistry'', JString agentRegistry)]]) props))) \<and>
         (writeFault e = NoFault \<longrightarrow> fst (main e) = Inr ())"
proof -
  from assms(3) have n: "decodeAgentId (decodeEventLog e) r = None"
  proof
    assume "\<forall>l \<in> set (logs r). toLowerCase (address l) \<noteq> toLowerCase IDENTITY_REGISTRY"
    then show ?thesis by (intro decodeAgentId_no_log) simp
  next
    assume "\<exists>l err. registeredLog r = Some l \<and> decodeEventLog e (data l) (topics l) = Inl err"
    then obtain l err where "registeredLog r = Some l" "decodeEventLog e (data l) (topics l) = Inl err"
      by blast
    then show ?thesis by (rule decodeAgentId_throws)
  qed
  have m: "main e =
      writeFile (writeFault e) (disk e) REGISTRATION_FILE
        (JSON_stringify e
           (JObject (AList.update ''registrations''
              (JArray [JObject [(''agentId'', JString ''UNKNOWN''),
                                (''agentRegistry'', JString agentRegistry)]]) props)))"
    by (simp add: main_persist [OF assms(1,2)] persist_object n registrationEntry_def
        agentIdValue_None)
  have "writeFault e = NoFault \<longrightarrow> fst (main e) = Inr ()"
    by (simp add: m writeFile_NoFault)
  with n m show ?thesis by blast
qed

theorem unresolved_is_not_an_error_witness:
  \<open>decodeAgentId decode42 \<lparr>logs = [foreignLog]\<rparr> = None \<and>
   main (exampleEnv (Inr \<lparr>logs = [foreignLog]\<rparr>) decode42 NoFault) =
     (Inr (),
      [REGISTRATION_FILE \<mapsto>
         ''{"name":"A","registrations":[{"agentId":"UNKNOWN","agentRegistry":"eip155:84532:0x8004AA63c570c570eBF15376c0dB199918BFe9Fb"}]}'']) \<and>
   registeredLog \<lparr>logs = [transferLog, registeredLog42]\<rparr> = Some registeredLog42 \<and>
   decodeFails (data registeredLog42) (topics registeredLog42) = Inl AbiDecodingError \<and>
   decodeAgentId decodeFails \<lparr>logs = [transferLog, registeredLog42]\<rparr> = None \<and>
   main (exampleEnv (Inr \<lparr>logs = [transferLog, registeredLog42]\<rparr>) decodeFails NoFault) =
     (Inr (),
      [REGISTRATION_FILE \<mapsto>
         ''{"name":"A","registrations":[{"agentId":"UNKNOWN","agentRegistry":"eip155:84532:0x8004AA63c570c570eBF15376c0dB199918BFe9Fb"}]}''])\<close>
proof -
  let ?e1 = "exampleEnv (Inr \<lparr>logs = [foreignLog]\<rparr>) decode42 NoFault"
  let ?e2 = "exampleEnv (Inr \<lparr>logs = [transferLog, registeredLog42]\<rparr>) decodeFails NoFault"
  have s1: "submit ?e1 = Inr (JObject [(''name'', JString ''A''),
       (''registrations'',
        JArray [JObject [(''agentId'', JNumber (Finite 7)),
                         (''agentRegistry'', JString ''eip155:1:0x01'')]])], ''0x5c504ed4'')"
    and s2: "submit ?e2 = Inr (JObject [(''name'', JString ''A''),
       (''registrations'',
        JArray [JObject [(''agentId'', JNumber (Finite 7)),
                         (''agentRegistry'', JString ''eip155:1:0x01'')]])], ''0x5c504ed4'')"
    by (simp_all add: submit_example exampleRecord_def)
  have w1: "waitForTransactionReceipt ?e1 ''0x5c504ed4'' = Inr \<lparr>logs = [foreignLog]\<rparr>"
    and w2: "waitForTransactionReceipt ?e2 ''0x5c504ed4''
        = Inr \<lparr>logs = [transferLog, registeredLog42]\<rparr>"
    by (simp_all add: example_fields)
  have h1: "(\<forall>l \<in> set (logs \<lparr>logs = [foreignLog]\<rparr>).
        toLowerCase (address l) \<noteq> toLowerCase IDENTITY_REGISTRY) \<or>
      (\<exists>l err. registeredLog \<lparr>logs = [foreignLog]\<rparr> = Some l \<and> decodeEventLog ?e1 (data l) (topics l) = Inl err)"
    unfolding lower_registry
    by (simp add: foreignLog_def toLowerCase_def toLowerCase_char_def char_of_eq_iff)
  have f2: "registeredLog \<lparr>logs = [transferLog, registeredLog42]\<rparr> = Some registeredLog42"
    by (simp add: registeredLog_def example_logs)
  have d2: "decodeFails (data registeredLog42) (topics registeredLog42) = Inl AbiDecodingError"
    by (simp add: decodeFails_def)
  from f2 d2 have h2: "(\<forall>l \<in> set (logs \<lparr>logs = [transferLog, registeredLog42]\<rparr>).
        toLowerCase (address l) \<noteq> toLowerCase IDENTITY_REGISTRY) \<or>
      (\<exists>l err. registeredLog \<lparr>logs = [transferLog, registeredLog42]\<rparr> = Some l \<and>
         decodeEventLog ?e2 (data l) (topics l) = Inl err)"
    by (simp add: example_fields)
  have st: \<open>exampleStringify (exampleUpdated (JString ''UNKNOWN'')) =
      ''{"name":"A","registrations":[{"agentId":"UNKNOWN","agentRegistry":"eip155:84532:0x8004AA63c570c570eBF15376c0dB199918BFe9Fb"}]}''\<close>
    by (simp add: exampleStringify_def exampleUpdated_def)
  from unresolved_is_not_an_error [OF s1 w1 h1]
  have r1: "decodeAgentId decode42 \<lparr>logs = [foreignLog]\<rparr> = None"
    and m1: "main ?e1 = (Inr (), [REGISTRATION_FILE \<mapsto>
        exampleStringify (exampleUpdated (JString ''UNKNOWN''))])"
    by (simp_all add: example_fields agentRegistry_text writeFile_NoFault exampleUpdated_def)
  from unresolved_is_not_an_error [OF s2 w2 h2]
  have r2: "decodeAgentId decodeFails \<lparr>logs = [transferLog, registeredLog42]\<rparr> = None"
    and m2: "main ?e2 = (Inr (), [REGISTRATION_FILE \<mapsto>
        exampleStringify (exampleUpdated (JString ''UNKNOWN''))])"
    by (simp_all add: example_fields agentRegistry_text writeFile_NoFault exampleUpdated_def)
  from r1 m1 f2 d2 r2 m2 show ?thesis unfolding st by blast
qed

text \<open>
  Claim C4. Recording the same registry reference twice on the same record gives a
  \<^verbatim>\<open>registrations\<close> collection with exactly one entry: the second application changes
  nothing.
\<close>

theorem recordRegistration_idempotent:
  "\<exists>d. recordRegistration (JObject props) a = Inr d \<and>
       recordRegistration d a = Inr d \<and>
       registrations d = Some (JArray [registrationEntry a])"
  by (simp add: recordRegistration_object registrations_def update_conv')

theorem recordRegistration_idempotent_witness:
  "recordRegistration exampleRecord (Some ''42'') = Inr (exampleUpdated (JNumber (Finite 42))) \<and>
   recordRegistration (exampleUpdated (JNumber (Finite 42))) (Some ''42'')
     = Inr (exampleUpdated (JNumber (Finite 42))) \<and>
   registrations (exampleUpdated (JNumber (Finite 42)))
     = Some (JArray [JObject [(''agentId'', JNumber (Finite 42)),
         (''agentRegistry'',
          JString ''eip155:84532:0x8004AA63c570c570eBF15376c0dB199918BFe9Fb'')]])"
proof -
  have c: "recordRegistration exampleRecord (Some ''42'')
      = Inr (exampleUpdated (JNumber (Finite 42)))"
    by (simp add: exampleRecord_def recordRegistration_object registrationEntry_def
        agentIdValue_42 agentRegistry_text exampleUpdated_def)
  have e: "registrationEntry (Some ''42'') = JObject [(''agentId'', JNumber (Finite 42)),
         (''agentRegistry'',
          JString ''eip155:84532:0x8004AA63c570c570eBF15376c0dB199918BFe9Fb'')]"
    by (simp add: registrationEntry_def agentIdValue_42 agentRegistry_text)
  from recordRegistration_idempotent
    [of "[(''name'', JString ''A''),
       (''registrations'',
        JArray [JObject [(''agentId'', JNumber (Finite 7)),
                         (''agentRegistry'', JString ''eip155:1:0x01'')]])]" "Some ''42''"]
  obtain d where "recordRegistration exampleRecord (Some ''42'') = Inr d"
    and "recordRegistration d (Some ''42'') = Inr d"
    and "registrations d = Some (JArray [registrationEntry (Some ''42'')])"
    unfolding exampleRecord_def by blast
  with c e show ?thesis by simp
qed

subsection \<open>The persisted record\<close>

lemma toString_chain: "toString CHAIN_ID = ''84532''"
  by (simp add: CHAIN_ID_def toString.simps [of 84532] toString.simps [of 8453]
      toString.simps [of 845] toString.simps [of 84] toString.simps [of 8]
      digit_char_def char_of_eq_iff)

lemma main_written:
  assumes "submit e = Inr (JObject props, hash)"
    and "waitForTransactionReceipt e hash = Inr r"
    and "writeFault e = NoFault"
  shows "main e =
     (Inr (),
      (disk e)(REGISTRATION_FILE \<mapsto>
        JSON_stringify e
          (JObject (AList.update ''registrations''
             (JArray [registrationEntry (decodeAgentId (decodeEventLog e) r)]) props))))"
  by (simp add: main_persist [OF assms(1,2)] persist_object assms(3) writeFile_NoFault)

lemma decodeAgentId_no_match: "registeredLog r = None \<Longrightarrow> decodeAgentId dec r = None"
  by (simp add: decodeAgentId_def)


text \<open>
  Claim C5. On a successful run the file holds the same document with
  \<^verbatim>\<open>registrations\<close> set to a one-element sequence, whose entry has \<^verbatim>\<open>agentId\<close> and
  \<^verbatim>\<open>agentRegistry\<close> (\<^verbatim>\<open>eip155\<close>, the chain identifier 84532 and the contract address).
  When the identifier is unresolved (no matching log, or a decoder that throws),
  \<^verbatim>\<open>agentId\<close> is the text \<^verbatim>\<open>UNKNOWN\<close>; when the receipt resolves to an identifier it
  is an integer, the identifier itself below \<open>2^53\<close>, so 42 for a receipt that resolves
  to 42.
\<close>

theorem persisted_registrations:
  assumes "submit e = Inr (JObject props, hash)"
    and "waitForTransactionReceipt e hash = Inr r"
    and "writeFault e = NoFault"
  shows "\<exists>idv.
     main e =
       (Inr (),
        (disk e)(REGISTRATION_FILE \<mapsto>
          JSON_stringify e
            (JObject (AList.update ''registrations''
               (JArray [JObject
                  [(''agentId'', idv),
                   (''agentRegistry'',
                    JString ''eip155:84532:0x8004AA63c570c570eBF15376c0dB199918BFe9Fb'')]])
               props)))) \<and>
     ''eip155:84532:0x8004AA63c570c570eBF15376c0dB199918BFe9Fb''
       = ''eip155:'' @ toString CHAIN_ID @ '':'' @ IDENTITY_REGISTRY \<and>
     (decodeAgentId (decodeEventLog e) r = None \<longrightarrow> idv = JString ''UNKNOWN'') \<and>
     (registeredLog r = None \<longrightarrow> idv = JString ''UNKNOWN'') \<and>
     (\<forall>l err. registeredLog r = Some l \<and> decodeEventLog e (data l) (topics l) = Inl err \<longrightarrow>
        idv = JString ''UNKNOWN'') \<and>
     (\<forall>l a. registeredLog r = Some l \<and>
        decodeEventLog e (data l) (topics l) = Inr \<lparr>eventName = ''Registered'', args = Some a\<rparr> \<longrightarrow>
          (\<exists>v :: nat. idv = JNumber (Finite (of_nat v))) \<and>
          (unat (agentId a) < 2 ^ 53 \<longrightarrow> idv = JNumber (Finite (of_nat (unat (agentId a))))) \<and>
          (agentId a = 42 \<longrightarrow> idv = JNumber (Finite 42)))"
proof -
  let ?a = "decodeAgentId (decodeEventLog e) r"
  let ?idv = "agentIdValue ?a"
  have m: "main e =
       (Inr (),
        (disk e)(REGISTRATION_FILE \<mapsto>
          JSON_stringify e
            (JObject (AList.update ''registrations''
               (JArray [JObject
                  [(''agentId'', ?idv),
                   (''agentRegistry'',
                    JString ''eip155:84532:0x8004AA63c570c570eBF15376c0dB199918BFe9Fb'')]])
               props))))"
    using main_written [OF assms] by (simp add: registrationEntry_def agentRegistry_text)
  have l: "''eip155:84532:0x8004AA63c570c570eBF15376c0dB199918BFe9Fb''
       = ''eip155:'' @ toString CHAIN_ID @ '':'' @ IDENTITY_REGISTRY"
    by (simp add: toString_chain IDENTITY_REGISTRY_def)
  have n: "?a = None \<longrightarrow> ?idv = JString ''UNKNOWN''"
    by (simp add: agentIdValue_None)
  have n1: "registeredLog r = None \<longrightarrow> ?idv = JString ''UNKNOWN''"
    by (simp add: decodeAgentId_no_match agentIdValue_None)
  have n2: "\<forall>l err. registeredLog r = Some l \<and>
      decodeEventLog e (data l) (topics l) = Inl err \<longrightarrow> ?idv = JString ''UNKNOWN''"
    by (auto simp add: decodeAgentId_throws agentIdValue_None)
  have k: "\<forall>l a. registeredLog r = Some l \<and>
        decodeEventLog e (data l) (topics l) = Inr \<lparr>eventName = ''Registered'', args = Some a\<rparr> \<longrightarrow>
          (\<exists>v :: nat. ?idv = JNumber (Finite (of_nat v))) \<and>
          (unat (agentId a) < 2 ^ 53 \<longrightarrow> ?idv = JNumber (Finite (of_nat (unat (agentId a))))) \<and>
          (agentId a = 42 \<longrightarrow> ?idv = JNumber (Finite 42))"
  proof (intro allI impI, elim conjE)
    fix l a
    assume "registeredLog r = Some l"
      and "decodeEventLog e (data l) (topics l) = Inr \<lparr>eventName = ''Registered'', args = Some a\<rparr>"
    then have d: "?a = Some (toString (unat (agentId a)))"
      by (rule decodeAgentId_Registered)
    have i: "\<exists>v :: nat. ?idv = JNumber (Finite (of_nat v))"
      unfolding d by (rule agentIdValue_integer)
    have x: "unat (agentId a) < 2 ^ 53 \<longrightarrow>
        ?idv = JNumber (Finite (of_nat (unat (agentId a))))"
      unfolding d by (simp add: agentIdValue_toString parseInt_small)
    have y: "agentId a = 42 \<longrightarrow> ?idv = JNumber (Finite 42)"
      unfolding d by (simp add: toString_42 agentIdValue_42)
    show "(\<exists>v :: nat. ?idv = JNumber (Finite (of_nat v))) \<and>
          (unat (agentId a) < 2 ^ 53 \<longrightarrow> ?idv = JNumber (Finite (of_nat (unat (agentId a))))) \<and>
          (agentId a = 42 \<longrightarrow> ?idv = JNumber (Finite 42))"
      by (intro conjI) (rule i x y)+
  qed
  show ?thesis
    by (rule exI [of _ ?idv], intro conjI) (rule m l n n1 n2 k)+
qed

theorem persisted_registrations_witness:
  \<open>registeredLog \<lparr>logs = [transferLog, foreignLog, completeLog42]\<rparr> = Some completeLog42 \<and>
   main (exampleEnv (Inr \<lparr>logs = [transferLog, foreignLog, completeLog42]\<rparr>)
           exampleDecoder NoFault) =
     (Inr (),
      [REGISTRATION_FILE \<mapsto>
         ''{"name":"A","registrations":[{"agentId":42,"agentRegistry":"eip155:84532:0x8004AA63c570c570eBF15376c0dB199918BFe9Fb"}]}'']) \<and>
   registeredLog \<lparr>logs = [transferLog, foreignLog]\<rparr> = None \<and>
   main (exampleEnv (Inr \<lparr>logs = [transferLog, foreignLog]\<rparr>) exampleDecoder NoFault) =
     (Inr (),
      [REGISTRATION_FILE \<mapsto>
         ''{"name":"A","registrations":[{"agentId":"UNKNOWN","agentRegistry":"eip155:84532:0x8004AA63c570c570eBF15376c0dB199918BFe9Fb"}]}''])\<close>
proof -
  let ?r1 = "\<lparr>logs = [transferLog, foreignLog, completeLog42]\<rparr>"
  let ?r2 = "\<lparr>logs = [transferLog, foreignLog]\<rparr>"
  let ?props = "[(''name'', JString ''A''),
       (''registrations'',
        JArray [JObject [(''agentId'', JNumber (Finite 7)),
                         (''agentRegistry'', JString ''eip155:1:0x01'')]])]"
  let ?a = "\<lparr>agentId = 42, agentURI = ''data:'',
             owner = ''0xf39fd6e51aad88f6f4ce6ab8827279cfffb92266''\<rparr>"
  have s: "submit (exampleEnv (Inr rr) exampleDecoder NoFault)
      = Inr (JObject ?props, ''0x5c504ed4'')" for rr
    by (simp add: submit_example exampleRecord_def)
  have w: "waitForTransactionReceipt (exampleEnv (Inr rr) exampleDecoder NoFault) ''0x5c504ed4''
      = Inr rr" for rr
    by (simp add: example_fields)
  have n: "writeFault (exampleEnv (Inr rr) exampleDecoder NoFault) = NoFault" for rr
    by (simp add: example_fields)
  have c: "isRegisteredLog completeLog42"
    unfolding isRegisteredLog_def lower_registry
    by (simp add: completeLog42_def topic0_def REGISTERED_EVENT_SIG_def toLowerCase_def
        toLowerCase_char_def char_of_eq_iff)
  have f1: "registeredLog ?r1 = Some completeLog42"
    by (simp add: registeredLog_def example_logs c)
  have f2: "registeredLog ?r2 = None"
    by (simp add: registeredLog_def example_logs)
  have d1: "decodeEventLog (exampleEnv (Inr ?r1) exampleDecoder NoFault)
      (data completeLog42) (topics completeLog42)
      = Inr \<lparr>eventName = ''Registered'', args = Some ?a\<rparr>"
    by (simp only: example_fields exampleDecoder_complete)
  have st1: \<open>exampleStringify (exampleUpdated (JNumber (Finite 42))) =
      ''{"name":"A","registrations":[{"agentId":42,"agentRegistry":"eip155:84532:0x8004AA63c570c570eBF15376c0dB199918BFe9Fb"}]}''\<close>
    and st2: \<open>exampleStringify (exampleUpdated (JString ''UNKNOWN'')) =
      ''{"name":"A","registrations":[{"agentId":"UNKNOWN","agentRegistry":"eip155:84532:0x8004AA63c570c570eBF15376c0dB199918BFe9Fb"}]}''\<close>
    by (simp_all add: exampleStringify_def exampleUpdated_def)
  from persisted_registrations [OF s w n, of ?r1]
  obtain idv where
    m1: "main (exampleEnv (Inr ?r1) exampleDecoder NoFault) =
       (Inr (),
        (disk (exampleEnv (Inr ?r1) exampleDecoder NoFault))(REGISTRATION_FILE \<mapsto>
          JSON_stringify (exampleEnv (Inr ?r1) exampleDecoder NoFault)
            (JObject (AList.update ''registrations''
               (JArray [JObject
                  [(''agentId'', idv),
                   (''agentRegistry'',
                    JString ''eip155:84532:0x8004AA63c570c570eBF15376c0dB199918BFe9Fb'')]])
               ?props))))"
    and k1: "\<forall>l a. registeredLog ?r1 = Some l \<and>
        decodeEventLog (exampleEnv (Inr ?r1) exampleDecoder NoFault) (data l) (topics l)
          = Inr \<lparr>eventName = ''Registered'', args = Some a\<rparr> \<longrightarrow>
          (\<exists>v :: nat. idv = JNumber (Finite (of_nat v))) \<and>
          (unat (agentId a) < 2 ^ 53 \<longrightarrow> idv = JNumber (Finite (of_nat (unat (agentId a))))) \<and>
          (agentId a = 42 \<longrightarrow> idv = JNumber (Finite 42))"
    by (elim exE conjE)
  from k1 f1 d1 have "agentId ?a = 42 \<longrightarrow> idv = JNumber (Finite 42)" by blast
  then have i1: "idv = JNumber (Finite 42)" by simp
  have a: "main (exampleEnv (Inr ?r1) exampleDecoder NoFault) =
     (Inr (), [REGISTRATION_FILE \<mapsto> exampleStringify (exampleUpdated (JNumber (Finite 42)))])"
    unfolding m1 i1 by (simp add: example_fields exampleUpdated_def)
  from persisted_registrations [OF s w n, of ?r2]
  obtain idv' where
    m2: "main (exampleEnv (Inr ?r2) exampleDecoder NoFault) =
       (Inr (),
        (disk (exampleEnv (Inr ?r2) exampleDecoder NoFault))(REGISTRATION_FILE \<mapsto>
          JSON_stringify (exampleEnv (Inr ?r2) exampleDecoder NoFault)
            (JObject (AList.update ''registrations''
               (JArray [JObject
                  [(''agentId'', idv'),
                   (''agentRegistry'',
                    JString ''eip155:84532:0x8004AA63c570c570eBF15376c0dB199918BFe9Fb'')]])
               ?props))))"
    and k2: "registeredLog ?r2 = None \<longrightarrow> idv' = JString ''UNKNOWN''"
    by (elim exE conjE)
  from k2 f2 have i2: "idv' = JString ''UNKNOWN''" by (rule mp)
  have b: "main (exampleEnv (Inr ?r2) exampleDecoder NoFault) =
     (Inr (), [REGISTRATION_FILE \<mapsto> exampleStringify (exampleUpdated (JString ''UNKNOWN''))])"
    unfolding m2 i2 by (simp add: example_fields exampleUpdated_def)
  show ?thesis
    by (intro conjI) (rule f1 a [unfolded st1] f2 b [unfolded st2])+
qed

lemma update_present_keys:
  "map_of al k = Some v \<Longrightarrow> map fst (AList.update k v' al) = map fst al"
  by (induction al) (auto split: if_splits)

text \<open>
  Claim C9. When the record read from the file already has a registration for another
  network, the record that is written has the new entry only: the whole collection is
  replaced by a one-element array, so the entry of the other network is gone. Every
  other field of the document keeps its value.
\<close>

theorem other_networks_discarded:
  assumes "submit e = Inr (JObject props, hash)"
    and "waitForTransactionReceipt e hash = Inr r"
    and "writeFault e = NoFault"
    and "map_of props ''registrations'' = Some (JArray prior)"
    and "JObject [(''agentId'', i), (''agentRegistry'', JString other)] \<in> set prior"
    and "other \<noteq> agentRegistry"
  shows "\<exists>props'.
     main e = (Inr (), (disk e)(REGISTRATION_FILE \<mapsto> JSON_stringify e (JObject props'))) \<and>
     map_of props' ''registrations''
       = Some (JArray [registrationEntry (decodeAgentId (decodeEventLog e) r)]) \<and>
     JObject [(''agentId'', i), (''agentRegistry'', JString other)]
       \<notin> set [registrationEntry (decodeAgentId (decodeEventLog e) r)] \<and>
     map fst props' = map fst props \<and>
     (\<forall>k. k \<noteq> ''registrations'' \<longrightarrow> map_of props' k = map_of props k)"
proof -
  let ?entry = "registrationEntry (decodeAgentId (decodeEventLog e) r)"
  let ?props' = "AList.update ''registrations'' (JArray [?entry]) props"
  have a: "main e = (Inr (), (disk e)(REGISTRATION_FILE \<mapsto> JSON_stringify e (JObject ?props')))"
    by (rule main_written [OF assms(1,2,3)])
  have b: "map_of ?props' ''registrations'' = Some (JArray [?entry])"
    by (simp add: update_conv')
  have c: "JObject [(''agentId'', i), (''agentRegistry'', JString other)] \<notin> set [?entry]"
    using assms(6) by (simp add: registrationEntry_def)
  have d: "map fst ?props' = map fst props"
    by (rule update_present_keys [OF assms(4)])
  have f: "\<forall>k. k \<noteq> ''registrations'' \<longrightarrow> map_of ?props' k = map_of props k"
    by (simp add: update_conv')
  show ?thesis
    by (rule exI [of _ ?props'], intro conjI) (rule a b c d f)+
qed

theorem other_networks_discarded_witness:
  \<open>map_of [(''name'', JString ''A''),
       (''registrations'',
        JArray [JObject [(''agentId'', JNumber (Finite 7)),
                         (''agentRegistry'', JString ''eip155:1:0x01'')]])] ''registrations''
     = Some (JArray [JObject [(''agentId'', JNumber (Finite 7)),
                              (''agentRegistry'', JString ''eip155:1:0x01'')]]) \<and>
   ''eip155:1:0x01'' \<noteq> agentRegistry \<and>
   (\<exists>props'.
      main (exampleEnv (Inr \<lparr>logs = [registeredLog42]\<rparr>) decode42 NoFault) =
        (Inr (), [REGISTRATION_FILE \<mapsto> exampleStringify (JObject props')]) \<and>
      map_of props' ''registrations''
        = Some (JArray [JObject [(''agentId'', JNumber (Finite 42)),
            (''agentRegistry'',
             JString ''eip155:84532:0x8004AA63c570c570eBF15376c0dB199918BFe9Fb'')]]) \<and>
      map fst props' = [''name'', ''registrations''] \<and>
      map_of props' ''name'' = Some (JString ''A''))\<close>
proof -
  let ?r = "\<lparr>logs = [registeredLog42]\<rparr>"
  let ?e = "exampleEnv (Inr ?r) decode42 NoFault"
  let ?old = "JObject [(''agentId'', JNumber (Finite 7)),
                       (''agentRegistry'', JString ''eip155:1:0x01'')]"
  let ?props = "[(''name'', JString ''A''), (''registrations'', JArray [?old])]"
  have s: "submit ?e = Inr (JObject ?props, ''0x5c504ed4'')"
    by (simp add: submit_example exampleRecord_def)
  have w: "waitForTransactionReceipt ?e ''0x5c504ed4'' = Inr ?r"
    and n: "writeFault ?e = NoFault"
    by (simp_all add: example_fields)
  have p: "map_of ?props ''registrations'' = Some (JArray [?old])" by simp
  have m: "?old \<in> set [?old]" by simp
  have o: "''eip155:1:0x01'' \<noteq> agentRegistry" by (simp add: agentRegistry_text)
  have f: "registeredLog ?r = Some registeredLog42"
    by (simp add: registeredLog_def example_logs)
  have d: "decodeAgentId decode42 ?r = Some ''42''"
    using decodeAgentId_Registered [of ?r registeredLog42 decode42, OF f]
    by (simp add: decode42_def toString_42)
  have en: "registrationEntry (Some ''42'') = JObject [(''agentId'', JNumber (Finite 42)),
            (''agentRegistry'',
             JString ''eip155:84532:0x8004AA63c570c570eBF15376c0dB199918BFe9Fb'')]"
    by (simp add: registrationEntry_def agentIdValue_42 agentRegistry_text)
  from other_networks_discarded [OF s w n p m o]
  obtain props' where
    g1: "main ?e = (Inr (), (disk ?e)(REGISTRATION_FILE \<mapsto> JSON_stringify ?e (JObject props')))"
    and g2: "map_of props' ''registrations''
       = Some (JArray [registrationEntry (decodeAgentId (decodeEventLog ?e) ?r)])"
    and g3: "map fst props' = map fst ?props"
    and g4: "\<forall>k. k \<noteq> ''registrations'' \<longrightarrow> map_of props' k = map_of ?props k"
    by (elim exE conjE)
  from g1 have h1: "main ?e = (Inr (), [REGISTRATION_FILE \<mapsto> exampleStringify (JObject props')])"
    by (simp add: example_fields)
  from g2 have h2: "map_of props' ''registrations''
        = Some (JArray [JObject [(''agentId'', JNumber (Finite 42)),
            (''agentRegistry'',
             JString ''eip155:84532:0x8004AA63c570c570eBF15376c0dB199918BFe9Fb'')]])"
    by (simp add: example_fields d en)
  from g3 have h3: "map fst props' = [''name'', ''registrations'']" by simp
  from g4 have "map_of props' ''name'' = map_of ?props ''name''" by simp
  then have h4: "map_of props' ''name'' = Some (JString ''A'')" by simp
  have ex: "\<exists>props'.
      main ?e = (Inr (), [REGISTRATION_FILE \<mapsto> exampleStringify (JObject props')]) \<and>
      map_of props' ''registrations''
        = Some (JArray [JObject [(''agentId'', JNumber (Finite 42)),
            (''agentRegistry'',
             JString ''eip155:84532:0x8004AA63c570c570eBF15376c0dB199918BFe9Fb'')]]) \<and>
      map fst props' = [''name'', ''registrations''] \<and>
      map_of props' ''name'' = Some (JString ''A'')"
    by (rule exI [of _ props'], intro conjI) (rule h1 h2 h3 h4)+
  show ?thesis by (rule conjI [OF p conjI [OF o ex]])
qed

text \<open>
  Claim C10. The decoded identifier is a 256-bit unsigned integer, and it reaches the
  record through its decimal text and \<^verbatim>\<open>parseInt\<close>, that is, as a double. Up to
  \<open>2^53 - 1\<close> the persisted \<^verbatim>\<open>agentId\<close> is the identifier itself; above that it may
  differ, as it does for \<open>2^53 + 1\<close>, which is persisted as \<open>2^53\<close>.
\<close>

theorem agentId_number_precision:
  assumes "registeredLog r = Some l"
    and "dec (data l) (topics l) = Inr \<lparr>eventName = ''Registered'', args = Some a\<rparr>"
  shows "decodeAgentId dec r = Some (toString (unat (agentId a))) \<and>
     (unat (agentId a) \<le> 2 ^ 53 - 1 \<longrightarrow>
        agentIdValue (decodeAgentId dec r) = JNumber (Finite (of_nat (unat (agentId a))))) \<and>
     (agentId a = 9007199254740993 \<longrightarrow>
        agentIdValue (decodeAgentId dec r) = JNumber (Finite 9007199254740992))"
proof -
  have d: "decodeAgentId dec r = Some (toString (unat (agentId a)))"
    using assms by (rule decodeAgentId_Registered)
  have "agentIdValue (Some (toString (unat (agentId a))))
      = JNumber (Finite (of_nat (unat (agentId a))))"
    if "unat (agentId a) \<le> 2 ^ 53 - 1"
  proof -
    from that have "unat (agentId a) < 2 ^ 53" by simp
    then show ?thesis by (simp add: agentIdValue_toString parseInt_small)
  qed
  moreover have "agentIdValue (Some (toString (unat (agentId a))))
      = JNumber (Finite 9007199254740992)"
    if "agentId a = 9007199254740993"
    by (simp add: that agentIdValue_toString parseInt_toString roundToDouble_big)
  ultimately show ?thesis using d by simp
qed

theorem agentId_number_precision_witness:
  "registeredLog \<lparr>logs = [registeredLog42]\<rparr> = Some registeredLog42 \<and>
   unat (42 :: 256 word) \<le> 2 ^ 53 - 1 \<and>
   agentIdValue (decodeAgentId decode42 \<lparr>logs = [registeredLog42]\<rparr>) = JNumber (Finite 42) \<and>
   decodeAgentId decodeBig \<lparr>logs = [registeredLog42]\<rparr> = Some (toString 9007199254740993) \<and>
   agentIdValue (decodeAgentId decodeBig \<lparr>logs = [registeredLog42]\<rparr>)
     = JNumber (Finite 9007199254740992) \<and>
   Finite 9007199254740992 \<noteq> Finite 9007199254740993"
proof -
  let ?r = "\<lparr>logs = [registeredLog42]\<rparr>"
  let ?a = "\<lparr>agentId = 42, agentURI = ''data:'', owner = ''0x01''\<rparr>"
  let ?b = "\<lparr>agentId = 9007199254740993, agentURI = ''data:'', owner = ''0x01''\<rparr>"
  have f: "registeredLog ?r = Some registeredLog42"
    by (simp add: registeredLog_def example_logs)
  have a: "decode42 (data registeredLog42) (topics registeredLog42) = Inr \<lparr>eventName = ''Registered'', args = Some ?a\<rparr>"
    and b: "decodeBig (data registeredLog42) (topics registeredLog42) = Inr \<lparr>eventName = ''Registered'', args = Some ?b\<rparr>"
    by (simp_all add: decode42_def decodeBig_def)
  have sa: "agentId ?a = 42" and sb: "agentId ?b = 9007199254740993" by simp_all
  have ua: "unat (42 :: 256 word) = 42"
    and ub: "unat (9007199254740993 :: 256 word) = 9007199254740993" by simp_all
  have u: "unat (42 :: 256 word) \<le> 2 ^ 53 - 1" unfolding ua by simp
  note t1 = agentId_number_precision [of ?r registeredLog42 decode42 ?a, OF f a, unfolded sa]
  note t2 = agentId_number_precision [of ?r registeredLog42 decodeBig ?b, OF f b, unfolded sb]
  from t1 u have "agentIdValue (decodeAgentId decode42 ?r)
      = JNumber (Finite (of_nat (unat (42 :: 256 word))))" by blast
  then have x: "agentIdValue (decodeAgentId decode42 ?r) = JNumber (Finite 42)"
    unfolding ua by simp
  from t2 have y: "decodeAgentId decodeBig ?r = Some (toString 9007199254740993)"
    unfolding ub by blast
  from t2 have z: "agentIdValue (decodeAgentId decodeBig ?r) = JNumber (Finite 9007199254740992)"
    by blast
  have ne: "Finite 9007199254740992 \<noteq> Finite 9007199254740993" by simp
  show ?thesis by (intro conjI) (rule f u x y z ne)+
qed

subsection \<open>Aborted runs and the final write\<close>

lemma script_outcome:
  "script e =
     \<lparr>exitStatus = 0,
      reported = (case fst (main e) of Inl err \<Rightarrow> [err] | Inr u \<Rightarrow> []),
      files = snd (main e)\<rparr>"
  by (cases "main e")
    (simp add: script_def promise_catch_def console_error_def statusOf_def split: sum.splits)

lemma writeFile_other_path:
  "path \<noteq> target \<Longrightarrow> snd (writeFile fault d target content) path = d path"
  by (cases fault) (simp_all add: writeFile_def)

lemma main_other_path:
  "path \<noteq> REGISTRATION_FILE \<Longrightarrow> snd (main e) path = disk e path"
  by (simp add: main_def persist_def writeFile_other_path split: sum.splits prod.splits)

text \<open>
  Claim C7, as the script has it. The exit status is zero after every run: when
  \<^verbatim>\<open>main\<close> rejects, whatever the error, the handler of the last line prints it and the
  process ends normally. The kind of the error shows in what is printed, not in the
  status.
\<close>

theorem exit_status_always_zero:
  "exitStatus (script e) = 0 \<and>
   reported (script e) = (case fst (main e) of Inl err \<Rightarrow> [err] | Inr u \<Rightarrow> []) \<and>
   files (script e) = snd (main e)"
  by (simp add: script_outcome)

theorem exit_status_always_zero_witness:
  "script envWithoutKey =
     \<lparr>exitStatus = 0,
      reported = [Error ''PRIVATE_KEY not set in .env''],
      files = [REGISTRATION_FILE \<mapsto> exampleText]\<rparr>"
proof -
  have "submit envWithoutKey = Inl (Error ''PRIVATE_KEY not set in .env'')"
    by (simp add: submit_def envWithoutKey_def)
  then have "main envWithoutKey
      = (Inl (Error ''PRIVATE_KEY not set in .env''), [REGISTRATION_FILE \<mapsto> exampleText])"
    by (simp add: main_aborts(1) envWithoutKey_def example_fields)
  with exit_status_always_zero [of envWithoutKey] show ?thesis
    by (cases "script envWithoutKey") simp
qed

text \<open>
  The claim as the spec states it fails: a run that aborts before anything is sent, and
  a run whose write fails, both end with status zero.
\<close>

theorem exit_status_counterexample:
  "fst (main envWithoutKey) = Inl (Error ''PRIVATE_KEY not set in .env'') \<and>
   exitStatus (script envWithoutKey) = 0 \<and>
   fst (main (exampleEnv (Inr \<lparr>logs = [registeredLog42]\<rparr>) decode42 OpenFails))
     = Inl PersistenceError \<and>
   exitStatus (script (exampleEnv (Inr \<lparr>logs = [registeredLog42]\<rparr>) decode42 OpenFails)) = 0"
proof -
  let ?e = "exampleEnv (Inr \<lparr>logs = [registeredLog42]\<rparr>) decode42 OpenFails"
  have "submit envWithoutKey = Inl (Error ''PRIVATE_KEY not set in .env'')"
    by (simp add: submit_def envWithoutKey_def)
  then have a: "fst (main envWithoutKey) = Inl (Error ''PRIVATE_KEY not set in .env'')"
    by (simp add: main_aborts(1))
  have s: "submit ?e = Inr (JObject [(''name'', JString ''A''),
       (''registrations'',
        JArray [JObject [(''agentId'', JNumber (Finite 7)),
                         (''agentRegistry'', JString ''eip155:1:0x01'')]])], ''0x5c504ed4'')"
    by (simp add: submit_example exampleRecord_def)
  have w: "waitForTransactionReceipt ?e ''0x5c504ed4'' = Inr \<lparr>logs = [registeredLog42]\<rparr>"
    by (simp add: example_fields)
  have b: "fst (main ?e) = Inl PersistenceError"
    by (simp add: main_persist [OF s w] persist_object example_fields writeFile_def)
  show ?thesis
    by (intro conjI) (simp_all add: a b script_outcome)
qed

text \<open>
  Claim C6, as the script has it. The updated record is written by one
  \<^verbatim>\<open>fs.writeFile\<close> onto \<^verbatim>\<open>registration.json\<close> itself, the file that was read: no other
  path is written, so there is no temporary file and nothing to rename. When the write
  completes, the file holds the new text and the run succeeds. When it fails, the run
  rejects with the error of the write; the file is as before only if the failure came
  before the file was opened, and otherwise holds the bytes written so far.
\<close>

theorem persist_overwrites_in_place:
  assumes "submit e = Inr (JObject props, hash)"
    and "waitForTransactionReceipt e hash = Inr r"
  shows "\<exists>new.
     new = JSON_stringify e
             (JObject (AList.update ''registrations''
                (JArray [registrationEntry (decodeAgentId (decodeEventLog e) r)]) props)) \<and>
     main e = writeFile (writeFault e) (disk e) REGISTRATION_FILE new \<and>
     (\<forall>path. path \<noteq> REGISTRATION_FILE \<longrightarrow> snd (main e) path = disk e path) \<and>
     (writeFault e = NoFault \<longrightarrow>
        main e = (Inr (), (disk e)(REGISTRATION_FILE \<mapsto> new))) \<and>
     (writeFault e = OpenFails \<longrightarrow> main e = (Inl PersistenceError, disk e)) \<and>
     (\<forall>n. writeFault e = WriteFailsAfter n \<longrightarrow>
        main e = (Inl PersistenceError, (disk e)(REGISTRATION_FILE \<mapsto> take n new)))"
proof -
  let ?new = "JSON_stringify e
             (JObject (AList.update ''registrations''
                (JArray [registrationEntry (decodeAgentId (decodeEventLog e) r)]) props))"
  have a: "?new = ?new" ..
  have b: "main e = writeFile (writeFault e) (disk e) REGISTRATION_FILE ?new"
    by (simp add: main_persist [OF assms] persist_object)
  have c: "\<forall>path. path \<noteq> REGISTRATION_FILE \<longrightarrow> snd (main e) path = disk e path"
    by (simp add: main_other_path)
  have d: "writeFault e = NoFault \<longrightarrow>
        main e = (Inr (), (disk e)(REGISTRATION_FILE \<mapsto> ?new))"
    by (simp add: b writeFile_def)
  have f: "writeFault e = OpenFails \<longrightarrow> main e = (Inl PersistenceError, disk e)"
    by (simp add: b writeFile_def)
  have g: "\<forall>n. writeFault e = WriteFailsAfter n \<longrightarrow>
        main e = (Inl PersistenceError, (disk e)(REGISTRATION_FILE \<mapsto> take n ?new))"
    by (simp add: b writeFile_def)
  show ?thesis
    by (rule exI [of _ ?new], intro conjI) (rule a b c d f g)+
qed

lemma example_resolved:
  "decodeAgentId decode42 \<lparr>logs = [registeredLog42]\<rparr> = Some ''42''"
proof -
  have "registeredLog \<lparr>logs = [registeredLog42]\<rparr> = Some registeredLog42"
    by (simp add: registeredLog_def example_logs)
  from decodeAgentId_Registered [of _ registeredLog42 decode42, OF this]
  show ?thesis by (simp add: decode42_def toString_42)
qed

lemma example_new_text:
  \<open>exampleStringify
     (JObject [(''name'', JString ''A''),
               (''registrations'', JArray [registrationEntry (Some ''42'')])])
   = ''{"name":"A","registrations":[{"agentId":42,"agentRegistry":"eip155:84532:0x8004AA63c570c570eBF15376c0dB199918BFe9Fb"}]}''\<close>
  by (simp add: registrationEntry_def agentIdValue_42 agentRegistry_text exampleStringify_def
      exampleUpdated_def)

theorem persist_overwrites_in_place_witness:
  \<open>main (exampleEnv (Inr \<lparr>logs = [registeredLog42]\<rparr>) decode42 OpenFails)
     = (Inl PersistenceError, [REGISTRATION_FILE \<mapsto> exampleText]) \<and>
   main (exampleEnv (Inr \<lparr>logs = [registeredLog42]\<rparr>) decode42 NoFault)
     = (Inr (),
        [REGISTRATION_FILE \<mapsto>
           ''{"name":"A","registrations":[{"agentId":42,"agentRegistry":"eip155:84532:0x8004AA63c570c570eBF15376c0dB199918BFe9Fb"}]}''])\<close>
proof -
  let ?r = "\<lparr>logs = [registeredLog42]\<rparr>"
  let ?props = "[(''name'', JString ''A''),
       (''registrations'',
        JArray [JObject [(''agentId'', JNumber (Finite 7)),
                         (''agentRegistry'', JString ''eip155:1:0x01'')]])]"
  have s: "submit (exampleEnv (Inr ?r) decode42 fault) = Inr (JObject ?props, ''0x5c504ed4'')"
    for fault
    by (simp add: submit_example exampleRecord_def)
  have w: "waitForTransactionReceipt (exampleEnv (Inr ?r) decode42 fault) ''0x5c504ed4'' = Inr ?r"
    for fault
    by (simp add: example_fields)
  from persist_overwrites_in_place [OF s w, of OpenFails]
  obtain new where "writeFault (exampleEnv (Inr ?r) decode42 OpenFails) = OpenFails \<longrightarrow>
      main (exampleEnv (Inr ?r) decode42 OpenFails)
        = (Inl PersistenceError, disk (exampleEnv (Inr ?r) decode42 OpenFails))"
    by (elim exE conjE)
  then have a: "main (exampleEnv (Inr ?r) decode42 OpenFails)
      = (Inl PersistenceError, [REGISTRATION_FILE \<mapsto> exampleText])"
    by (simp add: example_fields)
  from persist_overwrites_in_place [OF s w, of NoFault]
  obtain new where n: "new = JSON_stringify (exampleEnv (Inr ?r) decode42 NoFault)
             (JObject (AList.update ''registrations''
                (JArray [registrationEntry
                   (decodeAgentId (decodeEventLog (exampleEnv (Inr ?r) decode42 NoFault)) ?r)])
                ?props))"
    and "writeFault (exampleEnv (Inr ?r) decode42 NoFault) = NoFault \<longrightarrow>
      main (exampleEnv (Inr ?r) decode42 NoFault)
        = (Inr (), (disk (exampleEnv (Inr ?r) decode42 NoFault))(REGISTRATION_FILE \<mapsto> new))"
    by (elim exE conjE)
  then have "main (exampleEnv (Inr ?r) decode42 NoFault)
      = (Inr (), [REGISTRATION_FILE \<mapsto> new])"
    by (simp add: example_fields)
  moreover from n have \<open>new =
      ''{"name":"A","registrations":[{"agentId":42,"agentRegistry":"eip155:84532:0x8004AA63c570c570eBF15376c0dB199918BFe9Fb"}]}''\<close>
    by (simp add: example_fields example_resolved example_new_text)
  ultimately have b: \<open>main (exampleEnv (Inr ?r) decode42 NoFault)
     = (Inr (),
        [REGISTRATION_FILE \<mapsto>
           ''{"name":"A","registrations":[{"agentId":42,"agentRegistry":"eip155:84532:0x8004AA63c570c570eBF15376c0dB199918BFe9Fb"}]}''])\<close>
    by simp
  show ?thesis by (rule conjI [OF a b])
qed

text \<open>
  The claim as the spec states it fails: when the write breaks off after eight bytes,
  the run rejects and the file holds those eight bytes, not the record it held before.
\<close>

theorem persist_not_atomic_counterexample:
  \<open>fst (main (exampleEnv (Inr \<lparr>logs = [registeredLog42]\<rparr>) decode42 (WriteFailsAfter 8)))
     = Inl PersistenceError \<and>
   disk (exampleEnv (Inr \<lparr>logs = [registeredLog42]\<rparr>) decode42 (WriteFailsAfter 8))
     REGISTRATION_FILE = Some exampleText \<and>
   snd (main (exampleEnv (Inr \<lparr>logs = [registeredLog42]\<rparr>) decode42 (WriteFailsAfter 8)))
     REGISTRATION_FILE = Some ''{"name":'' \<and>
   ''{"name":'' \<noteq> exampleText\<close>
proof -
  let ?r = "\<lparr>logs = [registeredLog42]\<rparr>"
  let ?e = "exampleEnv (Inr ?r) decode42 (WriteFailsAfter 8)"
  have s: "submit ?e = Inr (JObject [(''name'', JString ''A''),
       (''registrations'',
        JArray [JObject [(''agentId'', JNumber (Finite 7)),
                         (''agentRegistry'', JString ''eip155:1:0x01'')]])], ''0x5c504ed4'')"
    by (simp add: submit_example exampleRecord_def)
  have w: "waitForTransactionReceipt ?e ''0x5c504ed4'' = Inr ?r"
    by (simp add: example_fields)
  have m: \<open>main ?e = (Inl PersistenceError, [REGISTRATION_FILE \<mapsto> ''{"name":''])\<close>
    unfolding main_persist [OF s w] persist_object
    by (simp add: example_fields example_resolved example_new_text writeFile_def)
  have a: "fst (main ?e) = Inl PersistenceError" by (simp add: m)
  have b: "disk ?e REGISTRATION_FILE = Some exampleText" by (simp add: example_fields)
  have c: \<open>snd (main ?e) REGISTRATION_FILE = Some ''{"name":''\<close> by (simp add: m)
  have d: \<open>''{"name":'' \<noteq> exampleText\<close> by (simp add: exampleText_def)
  show ?thesis by (intro conjI) (rule a b c d)+
qed

end
